theory Spec2Isabelle
  imports Complex_Main
begin

section \<open>Python values\<close>

text \<open>
  The question data of the student test creator is whatever \<^verbatim>\<open>json.loads\<close> delivers: nested
  Python dicts, lists, strings, numbers, booleans and \<^verbatim>\<open>None\<close>. A dict is an association list
  in insertion order (the decoder delivers distinct keys); \<open>JNull\<close> is Python's \<^verbatim>\<open>None\<close>.
  A finite float is the rational it denotes.
\<close>

datatype json =
    JNull
  | JBool bool
  | JInt int
  | JFloat rat
  | JStr string
  | JArr "json list"
  | JObj "(string \<times> json) list"

datatype py_error =
    KeyError string
  | TypeError
  | AttributeError
  | IndexError
  | ZeroDivisionError
  | ValueError
  | RecursionError
  | StreamlitAPIException

text \<open>Truth value of a Python object, as \<^verbatim>\<open>if x:\<close> tests it.\<close>

fun py_truthy :: "json \<Rightarrow> bool" where
  "py_truthy JNull = False"
| "py_truthy (JBool b) = b"
| "py_truthy (JInt i) = (i \<noteq> 0)"
| "py_truthy (JFloat r) = (r \<noteq> 0)"
| "py_truthy (JStr s) = (s \<noteq> [])"
| "py_truthy (JArr xs) = (xs \<noteq> [])"
| "py_truthy (JObj kvs) = (kvs \<noteq> [])"

text \<open>\<^verbatim>\<open>len(x)\<close>: defined on strings, lists and dicts, a \<^verbatim>\<open>TypeError\<close> elsewhere.\<close>

fun py_len :: "json \<Rightarrow> py_error + nat" where
  "py_len (JStr s) = Inr (length s)"
| "py_len (JArr xs) = Inr (length xs)"
| "py_len (JObj kvs) = Inr (length (remdups (map fst kvs)))"
| "py_len _ = Inl TypeError"

text \<open>\<^verbatim>\<open>x[k]\<close> with a string key \<open>k\<close>: a lookup in a dict, a \<^verbatim>\<open>TypeError\<close> on anything else.\<close>

fun py_getitem :: "json \<Rightarrow> string \<Rightarrow> py_error + json" where
  "py_getitem (JObj kvs) k = (case map_of kvs k of None \<Rightarrow> Inl (KeyError k) | Some v \<Rightarrow> Inr v)"
| "py_getitem _ k = Inl TypeError"

text \<open>\<^verbatim>\<open>x.get(k, d)\<close>: defined on dicts only.\<close>

fun py_get :: "json \<Rightarrow> string \<Rightarrow> json \<Rightarrow> py_error + json" where
  "py_get (JObj kvs) k d = (case map_of kvs k of None \<Rightarrow> Inr d | Some v \<Rightarrow> Inr v)"
| "py_get _ k d = Inl AttributeError"

text \<open>\<^verbatim>\<open>list(x.keys())\<close>: defined on dicts only.\<close>

fun py_keys :: "json \<Rightarrow> py_error + string list" where
  "py_keys (JObj kvs) = Inr (remdups (map fst kvs))"
| "py_keys _ = Inl AttributeError"

text \<open>The items a \<^verbatim>\<open>for\<close> loop over \<open>x\<close> visits: list elements, dict keys, characters.\<close>

fun py_iter :: "json \<Rightarrow> py_error + json list" where
  "py_iter (JArr xs) = Inr xs"
| "py_iter (JObj kvs) = Inr (map JStr (remdups (map fst kvs)))"
| "py_iter (JStr s) = Inr (map (\<lambda>c. JStr [c]) s)"
| "py_iter _ = Inl TypeError"

text \<open>
  \<^verbatim>\<open>a == b\<close> where \<open>a\<close> is the result of \<^verbatim>\<open>student_answers.get(key)\<close>, a string or \<^verbatim>\<open>None\<close>,
  and \<open>b\<close> any decoded value: \<^verbatim>\<open>None\<close> equals \<^verbatim>\<open>None\<close> only, a string equals the same
  string only.
\<close>

fun py_eq :: "string option \<Rightarrow> json \<Rightarrow> bool" where
  "py_eq None JNull = True"
| "py_eq (Some a) (JStr b) = (a = b)"
| "py_eq _ _ = False"

text \<open>Sequencing of steps that may raise: the first exception ends the computation.\<close>

definition andthen :: "'e + 'a \<Rightarrow> ('a \<Rightarrow> 'e + 'b) \<Rightarrow> 'e + 'b" where
  "andthen m f = (case m of Inl e \<Rightarrow> Inl e | Inr x \<Rightarrow> f x)"

subsection \<open>Decimal numerals and answer keys\<close>

text \<open>\<^verbatim>\<open>str(n)\<close> for an integer, and the answer key \<^verbatim>\<open>f"q_{question_num}"\<close>.\<close>

definition digit_char :: "nat \<Rightarrow> char" where
  "digit_char d = ''0123456789'' ! d"

function str_nat :: "nat \<Rightarrow> string" where
  "str_nat n = (if n < 10 then [digit_char n] else str_nat (n div 10) @ [digit_char (n mod 10)])"
  by pat_completeness auto
termination
  by (relation "measure id") auto

declare str_nat.simps [simp del]

definition str_int :: "int \<Rightarrow> string" where
  "str_int i = (if i < 0 then CHR ''-'' # str_nat (nat (- i)) else str_nat (nat i))"

definition answer_key :: "int \<Rightarrow> string" where
  "answer_key question_num = ''q_'' @ str_int question_num"

subsection \<open>Integer subscripts\<close>

text \<open>
  \<^verbatim>\<open>x[i]\<close> with an integer \<open>i\<close>: a negative index counts from the end of a list or string;
  a JSON dict has string keys only, so an integer is never one of them.
\<close>

definition py_nth :: "'a list \<Rightarrow> int \<Rightarrow> py_error + 'a" where
  "py_nth xs i =
     (if 0 \<le> i \<and> i < int (length xs) then Inr (xs ! nat i)
      else if i < 0 \<and> - int (length xs) \<le> i then Inr (xs ! nat (int (length xs) + i))
      else Inl IndexError)"

fun py_index :: "json \<Rightarrow> int \<Rightarrow> py_error + json" where
  "py_index (JArr xs) i = py_nth xs i"
| "py_index (JStr s) i = (case py_nth s i of Inl e \<Rightarrow> Inl e | Inr c \<Rightarrow> Inr (JStr [c]))"
| "py_index (JObj kvs) i = Inl (KeyError (str_int i))"
| "py_index _ i = Inl TypeError"

subsection \<open>Floating point\<close>

text \<open>
  A Python float is an IEEE double, held here as the rational it denotes. \<open>round_double x\<close> is
  the double nearest to \<open>x\<close>, a tie going to the even mantissa: the mantissa has 53 bits, so
  the unit of the last place is \<open>2 ^ e\<close> with \<open>e\<close> the binary exponent of \<open>x\<close> less 52, and not
  below \<open>2 ^ - 1074\<close>. Overflow is left out: the values of the scorer lie between 0 and 100.
\<close>

function bit_length :: "nat \<Rightarrow> nat" where
  "bit_length n = (if n = 0 then 0 else Suc (bit_length (n div 2)))"
  by pat_completeness auto
termination
  by (relation "measure id") auto

declare bit_length.simps [simp del]

text \<open>The binary exponent \<open>\<lfloor>log\<^sub>2 x\<rfloor>\<close> of a positive rational.\<close>

definition floor_log2 :: "rat \<Rightarrow> int" where
  "floor_log2 x =
     (if 1 \<le> x then int (bit_length (nat \<lfloor>x\<rfloor>)) - 1
      else - int (bit_length (nat (\<lceil>1 / x\<rceil> - 1))))"

definition round_half_even :: "rat \<Rightarrow> int" where
  "round_half_even y =
     (let f = \<lfloor>y\<rfloor>; d = y - of_int f
      in if d < 1 / 2 then f else if 1 / 2 < d then f + 1 else if even f then f else f + 1)"

definition round_double :: "rat \<Rightarrow> rat" where
  "round_double x =
     (if x = 0 then 0
      else let e = max (floor_log2 \<bar>x\<bar> - 52) (- 1074);
               m = round_half_even (\<bar>x\<bar> / 2 powi e)
           in sgn x * of_int m * 2 powi e)"

text \<open>
  \<^verbatim>\<open>a / b\<close> for two integers that are not negative: the quotient, correctly rounded; and
  \<^verbatim>\<open>x * y\<close> for two floats: the product, correctly rounded.
\<close>

definition py_truediv :: "nat \<Rightarrow> nat \<Rightarrow> py_error + rat" where
  "py_truediv a b =
     (if b = 0 then Inl ZeroDivisionError else Inr (round_double (of_nat a / of_nat b)))"

definition py_float_mul :: "rat \<Rightarrow> rat \<Rightarrow> rat" where
  "py_float_mul x y = round_double (x * y)"

section \<open>Response parser\<close>

text \<open>
  \<^verbatim>\<open>re.search(r'\{.*\}', response_text, re.DOTALL)\<close>. The search tries every start position
  from the left. At a position the pattern needs an opening brace; then \<^verbatim>\<open>.*\<close> takes as many
  characters as it can (with \<^verbatim>\<open>DOTALL\<close>, line breaks too) and gives them back one by one
  until a closing brace follows.
\<close>

fun greedy_to_brace :: "string \<Rightarrow> string option" where
  "greedy_to_brace [] = None"
| "greedy_to_brace (c # cs) =
     (case greedy_to_brace cs of
        Some m \<Rightarrow> Some (c # m)
      | None \<Rightarrow> if c = CHR ''}'' then Some [c] else None)"

fun match_at :: "string \<Rightarrow> string option" where
  "match_at [] = None"
| "match_at (c # cs) =
     (if c = CHR ''{'' then map_option ((#) c) (greedy_to_brace cs) else None)"

fun re_search :: "string \<Rightarrow> string option" where
  "re_search [] = None"
| "re_search (c # cs) =
     (case match_at (c # cs) of Some m \<Rightarrow> Some m | None \<Rightarrow> re_search cs)"

text \<open>
  The decoder \<^verbatim>\<open>json.loads\<close> is a parameter of the model. Called on a text it returns the
  decoded value, or raises \<^verbatim>\<open>json.JSONDecodeError\<close> with a message, or raises another exception:
  a plain \<^verbatim>\<open>ValueError\<close> for an integer literal longer than the conversion limit, a
  \<^verbatim>\<open>RecursionError\<close> for nesting that is too deep.
\<close>

datatype decoded = Decoded json | JSONDecodeError string | Raised py_error

text \<open>
  \<^verbatim>\<open>parse_mcq_response\<close>. Its \<^verbatim>\<open>except\<close> clause catches \<^verbatim>\<open>json.JSONDecodeError\<close> only, so any other
  exception of the decoder leaves the function (\<open>Inl\<close>). Otherwise the result is the returned
  value (\<open>JNull\<close> for \<^verbatim>\<open>None\<close>) and the messages passed to \<^verbatim>\<open>st.error\<close>.
\<close>

definition parse_mcq_response ::
  "(string \<Rightarrow> decoded) \<Rightarrow> string \<Rightarrow> py_error + json \<times> string list" where
  "parse_mcq_response loads response_text =
     (case re_search response_text of
        Some json_text \<Rightarrow>
          (case loads json_text of
             Decoded mcq_data \<Rightarrow> Inr (mcq_data, [])
           | JSONDecodeError e \<Rightarrow> Inr (JNull, [''Error parsing JSON response: '' @ e])
           | Raised e \<Rightarrow> Inl e)
      | None \<Rightarrow> Inr (JNull, [''Could not find valid JSON in the response'']))"

section \<open>Scorer\<close>

record result =
  question_number :: nat
  question_text :: json
  options :: json
  student_answer :: "string option"
  correct_answer :: json
  is_correct :: bool
  explanation :: json
  topic :: json
  difficulty :: json

record score_data =
  total_questions :: nat
  correct_answers :: nat
  score_percentage :: rat
  results :: "result list"

text \<open>
  The body of the loop of \<^verbatim>\<open>calculate_score\<close> for the question at index \<open>i\<close>. The three
  subscripts raise on a missing key, in the order of the source; the three \<^verbatim>\<open>get\<close> calls
  have defaults.
\<close>

definition score_question :: "nat \<Rightarrow> json \<Rightarrow> (string \<rightharpoonup> string) \<Rightarrow> py_error + result" where
  "score_question i question answers =
     (let question_num = i + 1;
          given = answers (answer_key (int question_num))
      in andthen (py_getitem question ''correct_answer'') (\<lambda>expected.
         andthen (py_getitem question ''question_text'') (\<lambda>qtext.
         andthen (py_getitem question ''options'') (\<lambda>opts.
         andthen (py_get question ''explanation'' (JStr ''No explanation provided'')) (\<lambda>expl.
         andthen (py_get question ''topic'' (JStr ''General'')) (\<lambda>tp.
         andthen (py_get question ''difficulty'' (JStr ''Medium'')) (\<lambda>diff.
           Inr \<lparr> question_number = question_num,
                 question_text = qtext,
                 options = opts,
                 student_answer = given,
                 correct_answer = expected,
                 is_correct = py_eq given expected,
                 explanation = expl,
                 topic = tp,
                 difficulty = diff \<rparr>)))))))"

text \<open>The loop, with its two accumulators; an exception in the body ends it.\<close>

fun score_loop ::
  "nat \<Rightarrow> json list \<Rightarrow> (string \<rightharpoonup> string) \<Rightarrow> nat \<Rightarrow> result list \<Rightarrow> py_error + nat \<times> result list" where
  "score_loop i [] answers correct rs = Inr (correct, rs)"
| "score_loop i (question # rest) answers correct rs =
     andthen (score_question i question answers) (\<lambda>r.
       score_loop (i + 1) rest answers (if is_correct r then correct + 1 else correct) (rs @ [r]))"

text \<open>
  \<^verbatim>\<open>calculate_score\<close>. The percentage is computed in floating point: the quotient of the two
  integers is rounded to a double, and so is its product with 100. Dividing by a total of
  zero raises.
\<close>

definition calculate_score :: "json \<Rightarrow> (string \<rightharpoonup> string) \<Rightarrow> py_error + score_data" where
  "calculate_score questions answers =
     andthen (py_len questions) (\<lambda>count.
     andthen (py_iter questions) (\<lambda>qs.
     andthen (score_loop 0 qs answers 0 []) (\<lambda>(correct, rs).
     andthen (py_truediv correct count) (\<lambda>ratio.
       Inr \<lparr> total_questions = count,
             correct_answers = correct,
             score_percentage = py_float_mul ratio 100,
             results = rs \<rparr>))))"

text \<open>
  \<^verbatim>\<open>display_results\<close> renders the report. For every incorrect result it passes a line to
  \<^verbatim>\<open>st.error\<close> (the line starts with a cross mark, U+274C, here its three UTF-8 bytes). Of its
  steps only \<^verbatim>\<open>result['options'].items()\<close> can raise, when the options of a question are not a
  dict. The result is the lines passed to \<^verbatim>\<open>st.error\<close> and the exception, if any.
\<close>

definition incorrect_message :: "result \<Rightarrow> string" where
  "incorrect_message r =
     [CHR 0xE2, CHR 0x9D, CHR 0x8C] @ '' Question '' @ str_int (int (question_number r)) @
     '': Incorrect''"

fun display_results_loop :: "result list \<Rightarrow> string list \<times> py_error option" where
  "display_results_loop [] = ([], None)"
| "display_results_loop (r # rs) =
     (let shown = (if is_correct r then [] else [incorrect_message r])
      in case py_keys (options r) of
           Inl e \<Rightarrow> (shown, Some e)
         | Inr labels \<Rightarrow>
             (case display_results_loop rs of (later, err) \<Rightarrow> (shown @ later, err)))"

definition display_results :: "score_data \<Rightarrow> string list \<times> py_error option" where
  "display_results score = display_results_loop (results score)"

section \<open>Session state and the four screens\<close>

text \<open>
  \<^verbatim>\<open>st.session_state\<close> is a dictionary that starts without keys; \<open>None\<close> is an absent key.
  \<^verbatim>\<open>main\<close> fills in each absent key at the start of every run, so the screens see a
  \<open>session\<close> with every field present.
\<close>

record session_state =
  key_test_created :: "bool option"
  key_test_data :: "json option"
  key_test_started :: "bool option"
  key_test_completed :: "bool option"
  key_student_answers :: "(string \<rightharpoonup> string) option"
  key_current_question :: "int option"
  key_student_name :: "string option"

record session =
  test_created :: bool
  test_data :: json
  test_started :: bool
  test_completed :: bool
  student_answers :: "string \<rightharpoonup> string"
  current_question :: int
  student_name :: string

definition initialise :: "session_state \<Rightarrow> session" where
  "initialise st =
     \<lparr> test_created = (case key_test_created st of None \<Rightarrow> False | Some b \<Rightarrow> b),
       test_data = (case key_test_data st of None \<Rightarrow> JNull | Some d \<Rightarrow> d),
       test_started = (case key_test_started st of None \<Rightarrow> False | Some b \<Rightarrow> b),
       test_completed = (case key_test_completed st of None \<Rightarrow> False | Some b \<Rightarrow> b),
       student_answers = (case key_student_answers st of None \<Rightarrow> Map.empty | Some m \<Rightarrow> m),
       current_question = (case key_current_question st of None \<Rightarrow> 0 | Some i \<Rightarrow> i),
       student_name = (case key_student_name st of None \<Rightarrow> [] | Some n \<Rightarrow> n) \<rparr>"

definition stored :: "session \<Rightarrow> session_state" where
  "stored s =
     \<lparr> key_test_created = Some (test_created s),
       key_test_data = Some (test_data s),
       key_test_started = Some (test_started s),
       key_test_completed = Some (test_completed s),
       key_student_answers = Some (student_answers s),
       key_current_question = Some (current_question s),
       key_student_name = Some (student_name s) \<rparr>"

text \<open>The dictionary after \<^verbatim>\<open>for key in list(st.session_state.keys()): del st.session_state[key]\<close>.\<close>

definition deleted :: session_state where
  "deleted =
     \<lparr> key_test_created = None, key_test_data = None, key_test_started = None,
       key_test_completed = None, key_student_answers = None, key_current_question = None,
       key_student_name = None \<rparr>"

text \<open>The screen that \<^verbatim>\<open>main\<close> shows, read off the three flags.\<close>

datatype stage = Creating | Ready | InProgress | Completed

definition stage_of :: "session \<Rightarrow> stage" where
  "stage_of s =
     (if \<not> test_created s then Creating
      else if \<not> test_started s then Ready
      else if \<not> test_completed s then InProgress
      else Completed)"

text \<open>
  One run of the script is driven by the widget values and by the button that was pressed,
  if any. Of the form fields only those that the handlers test are kept; subject, notes,
  question count and difficulty go into the prompt only.
\<close>

datatype button =
    CreateMyTest | StartTest | CreateNewTest | Previous | Next | FinishTest | CreateAnotherTest

record inputs =
  name_field :: string
  api_key_field :: string
  selected_topics :: "string list"
  selected_answer :: "string option"
  clicked :: "button option"

text \<open>
  What a run leaves behind: the session dictionary, the messages passed to \<^verbatim>\<open>st.error\<close>,
  the buttons that \<^verbatim>\<open>st.button\<close> put on the page, the number of requests sent
  to the generation service, an uncaught exception if one ended the run, and whether the run
  ended in \<^verbatim>\<open>st.rerun()\<close>.
\<close>

record outcome =
  session_after :: session_state
  errors_shown :: "string list"
  buttons_rendered :: "button list"
  api_calls :: nat
  uncaught :: "py_error option"
  rerun :: bool

definition page :: "session \<Rightarrow> string list \<Rightarrow> button list \<Rightarrow> outcome" where
  "page s errs bs =
     \<lparr> session_after = stored s, errors_shown = errs, buttons_rendered = bs, api_calls = 0,
       uncaught = None, rerun = False \<rparr>"

definition rerun_with :: "session_state \<Rightarrow> button list \<Rightarrow> outcome" where
  "rerun_with st bs =
     \<lparr> session_after = st, errors_shown = [], buttons_rendered = bs, api_calls = 0,
       uncaught = None, rerun = True \<rparr>"

definition crashed :: "session \<Rightarrow> py_error \<Rightarrow> outcome" where
  "crashed s e =
     \<lparr> session_after = stored s, errors_shown = [], buttons_rendered = [], api_calls = 0,
       uncaught = Some e, rerun = False \<rparr>"

definition guard :: "session \<Rightarrow> py_error + 'a \<Rightarrow> ('a \<Rightarrow> outcome) \<Rightarrow> outcome" where
  "guard s m f = (case m of Inl e \<Rightarrow> crashed s e | Inr x \<Rightarrow> f x)"

subsection \<open>Creation screen\<close>

text \<open>
  \<^verbatim>\<open>generate_mcqs\<close>. The outcome of the request to the generation service is a parameter:
  \<open>Inl msg\<close> is an exception with message \<open>msg\<close>, \<open>Inr c\<close> the content of the first choice
  (which the client library may leave \<^verbatim>\<open>None\<close>).
\<close>

definition generate_mcqs :: "string + string option \<Rightarrow> string option \<times> string list" where
  "generate_mcqs api =
     (case api of
        Inr content \<Rightarrow> (content, [])
      | Inl e \<Rightarrow> (None, [''Error generating questions: '' @ e]))"

text \<open>
  \<^verbatim>\<open>show_test_creation_interface\<close>, from the button on. The three checks return before
  anything is stored or sent; the name is stored before the request is made. An exception
  that leaves the parser ends the run.
\<close>

definition show_test_creation_interface ::
  "(string \<Rightarrow> decoded) \<Rightarrow> string + string option \<Rightarrow> session \<Rightarrow> inputs \<Rightarrow> outcome" where
  "show_test_creation_interface loads api s inp =
     (if clicked inp = Some CreateMyTest then
        if name_field inp = [] then page s [''Please enter your name''] [CreateMyTest]
        else if api_key_field inp = [] then
          page s [''Please provide your OpenAI API key''] [CreateMyTest]
        else if selected_topics inp = [] then
          page s [''Please select at least one topic''] [CreateMyTest]
        else
          let s1 = s\<lparr>student_name := name_field inp\<rparr>;
              (response, gen_errs) = generate_mcqs api
          in if response \<noteq> None \<and> response \<noteq> Some [] then
               case parse_mcq_response loads (the response) of
                 Inl e \<Rightarrow>
                   (crashed s1 e)
                     \<lparr>errors_shown := gen_errs, buttons_rendered := [CreateMyTest], api_calls := 1\<rparr>
               | Inr (mcq_data, parse_errs) \<Rightarrow>
                   if py_truthy mcq_data then
                     (rerun_with (stored (s1\<lparr>test_data := mcq_data, test_created := True\<rparr>))
                        [CreateMyTest])\<lparr>api_calls := 1\<rparr>
                   else
                     (page s1
                        (gen_errs @ parse_errs @ [''Failed to create test. Please try again.''])
                        [CreateMyTest])\<lparr>api_calls := 1\<rparr>
             else
               (page s1
                  (gen_errs @
                   [''Failed to generate questions. Please check your API key and try again.''])
                  [CreateMyTest])\<lparr>api_calls := 1\<rparr>
      else page s [] [CreateMyTest])"

subsection \<open>Start screen\<close>

definition show_test_start_interface :: "session \<Rightarrow> inputs \<Rightarrow> outcome" where
  "show_test_start_interface s inp =
     (if py_truthy (test_data s) then
        guard s (py_getitem (test_data s) ''questions'') (\<lambda>questions.
        guard s (py_len questions) (\<lambda>num_questions.
          if clicked inp = Some StartTest then
            rerun_with (stored (s\<lparr>test_started := True, current_question := 0\<rparr>)) [StartTest]
          else if clicked inp = Some CreateNewTest then
            rerun_with deleted [StartTest, CreateNewTest]
          else page s [] [StartTest, CreateNewTest]))
      else page s [] [])"

subsection \<open>Question screen\<close>

text \<open>
  The three navigation buttons save the selected label, when there is one, under the key of
  the question on screen.
\<close>

definition save_answer :: "session \<Rightarrow> int \<Rightarrow> string option \<Rightarrow> session" where
  "save_answer s current_q sel =
     (case sel of
        None \<Rightarrow> s
      | Some a \<Rightarrow>
          if a = [] then s
          else s\<lparr>student_answers := (student_answers s)(answer_key (current_q + 1) \<mapsto> a)\<rparr>)"

text \<open>
  The buttons exist only where their condition holds: a press of a button that is not on
  the page cannot happen, and a run with such a press does what a run without a press does.
\<close>

definition navigation :: "session \<Rightarrow> inputs \<Rightarrow> int \<Rightarrow> int \<Rightarrow> outcome" where
  "navigation s inp current_q n_questions =
     (let col1 = (if current_q > 0 then [Previous] else []);
          col2 = (if current_q < n_questions - 1 then [Next] else []);
          col3 = (if current_q = n_questions - 1 then [FinishTest] else [])
      in if current_q > 0 \<and> clicked inp = Some Previous then
           rerun_with
             (stored ((save_answer s current_q (selected_answer inp))
                \<lparr>current_question := current_q - 1\<rparr>))
             col1
         else if current_q < n_questions - 1 \<and> clicked inp = Some Next then
           rerun_with
             (stored ((save_answer s current_q (selected_answer inp))
                \<lparr>current_question := current_q + 1\<rparr>))
             (col1 @ col2)
         else if current_q = n_questions - 1 \<and> clicked inp = Some FinishTest then
           rerun_with
             (stored ((save_answer s current_q (selected_answer inp))
                \<lparr>test_completed := True\<rparr>))
             (col1 @ col2 @ col3)
         else page s [] (col1 @ col2 @ col3))"

text \<open>
  \<^verbatim>\<open>show_test_interface\<close>. The progress bar divides by the number of questions, and
  \<^verbatim>\<open>st.progress\<close> rejects a value outside \<open>[0, 1]\<close>.
\<close>

definition show_test_interface :: "session \<Rightarrow> inputs \<Rightarrow> outcome" where
  "show_test_interface s inp =
     (if \<not> py_truthy (test_data s) then page s [''No test data available''] []
      else
        guard s (py_getitem (test_data s) ''questions'') (\<lambda>questions.
        guard s (py_len questions) (\<lambda>n_questions.
          let current_q = current_question s in
          if n_questions = 0 then crashed s ZeroDivisionError
          else if current_q + 1 < 0 \<or> int n_questions < current_q + 1 then
            crashed s StreamlitAPIException
          else if current_q < int n_questions then
            guard s (py_index questions current_q) (\<lambda>question.
            guard s (py_getitem question ''question_text'') (\<lambda>qtext.
            guard s (py_getitem question ''options'') (\<lambda>opts.
            guard s (py_keys opts) (\<lambda>labels.
              navigation s inp current_q (int n_questions)))))
          else page s [] [])))"

subsection \<open>Results screen\<close>

definition show_results_interface :: "session \<Rightarrow> inputs \<Rightarrow> outcome" where
  "show_results_interface s inp =
     (if \<not> py_truthy (test_data s) then page s [''No test data available''] []
      else
        guard s (py_getitem (test_data s) ''questions'') (\<lambda>questions.
        guard s (calculate_score questions (student_answers s)) (\<lambda>score.
          case display_results score of
            (shown, Some e) \<Rightarrow> (crashed s e)\<lparr>errors_shown := shown\<rparr>
          | (shown, None) \<Rightarrow>
              if clicked inp = Some CreateAnotherTest then
                (rerun_with deleted [CreateAnotherTest])\<lparr>errors_shown := shown\<rparr>
              else page s shown [CreateAnotherTest])))"

subsection \<open>The script\<close>

definition main ::
  "(string \<Rightarrow> decoded) \<Rightarrow> string + string option \<Rightarrow> session_state \<Rightarrow> inputs \<Rightarrow> outcome" where
  "main loads api st inp =
     (let s = initialise st
      in if \<not> test_created s then show_test_creation_interface loads api s inp
         else if \<not> test_started s then show_test_start_interface s inp
         else if \<not> test_completed s then show_test_interface s inp
         else show_results_interface s inp)"

text \<open>
  The session dictionaries that a session can hold: it starts without keys, and every run of
  the script, whatever the widget values, the pressed button and the answers of the
  generation service and of the decoder, leads from one to the next.
\<close>

inductive reachable :: "session_state \<Rightarrow> bool" where
  fresh: "reachable deleted"
| run: "reachable st \<Longrightarrow> reachable (session_after (main loads api st inp))"

section \<open>Notions used in the statements\<close>

text \<open>
  The span that the specification describes: from the first opening brace of the text to
  its last closing brace, when one follows.
\<close>

definition brace_span :: "string \<Rightarrow> string option" where
  "brace_span t =
     (let from_first = dropWhile (\<lambda>c. c \<noteq> CHR ''{'') t
      in if CHR ''}'' \<in> set from_first
         then Some (rev (dropWhile (\<lambda>c. c \<noteq> CHR ''}'') (rev from_first)))
         else None)"

text \<open>A question record that carries the three fields which the scorer subscripts.\<close>

fun scorable :: "json \<Rightarrow> bool" where
  "scorable (JObj kvs) =
     (map_of kvs ''correct_answer'' \<noteq> None \<and> map_of kvs ''question_text'' \<noteq> None \<and>
      map_of kvs ''options'' \<noteq> None)"
| "scorable _ = False"

text \<open>
  A question record of the shape that the scorer is meant for: the three fields, the correct
  answer being a label, that is, a string.
\<close>

fun is_label :: "json \<Rightarrow> bool" where
  "is_label (JStr a) = True"
| "is_label _ = False"

fun labelled :: "json \<Rightarrow> bool" where
  "labelled (JObj kvs) =
     (scorable (JObj kvs) \<and>
      (case map_of kvs ''correct_answer'' of Some v \<Rightarrow> is_label v | None \<Rightarrow> False))"
| "labelled _ = False"

text \<open>A question record that the results page can display: its options are a dict.\<close>

fun is_dict :: "json \<Rightarrow> bool" where
  "is_dict (JObj kvs) = True"
| "is_dict _ = False"

fun displayable :: "json \<Rightarrow> bool" where
  "displayable (JObj kvs) =
     (scorable (JObj kvs) \<and>
      (case map_of kvs ''options'' of Some v \<Rightarrow> is_dict v | None \<Rightarrow> False))"
| "displayable _ = False"

text \<open>\<^verbatim>\<open>len(st.session_state.test_data['questions'])\<close>, as the start and question screens compute it.\<close>

definition question_count :: "session \<Rightarrow> py_error + nat" where
  "question_count s = andthen (py_getitem (test_data s) ''questions'') py_len"

text \<open>
  The results page comes as far as its button: the question list is there, the scorer
  returns a report, and the report is displayed without an exception.
\<close>

definition results_render :: "session \<Rightarrow> bool" where
  "results_render s =
     (case py_getitem (test_data s) ''questions'' of
        Inl e \<Rightarrow> False
      | Inr questions \<Rightarrow>
          (case calculate_score questions (student_answers s) of
             Inl e \<Rightarrow> False
           | Inr score \<Rightarrow> snd (display_results score) = None))"

text \<open>
  What holds of every session once the test has been started: a test was created, its
  question list has a length, and unless that list is empty the current index lies within it.
\<close>

definition session_inv :: "session \<Rightarrow> bool" where
  "session_inv s =
     (test_started s \<longrightarrow>
        test_created s \<and>
        (case question_count s of
           Inl e \<Rightarrow> False
         | Inr n \<Rightarrow> 0 < n \<longrightarrow> 0 \<le> current_question s \<and> current_question s < int n))"

subsection \<open>Sample data\<close>

text \<open>
  A response payload with two questions, the first without explanation, topic and
  difficulty, and the value that \<^verbatim>\<open>json.loads\<close> decodes it to.
\<close>

definition sample_payload :: string where
  \<open>sample_payload =
     ''{"questions": [{"question_text": "2+2?", "options": {"A": "4", "B": "5"}, "correct_answer": "A"}, {"question_text": "3*3?", "options": {"A": "6", "B": "9"}, "correct_answer": "B", "explanation": "3*3=9", "topic": "Arithmetic", "difficulty": "Easy"}]}''\<close>

definition sample_questions :: "json list" where
  "sample_questions =
     [JObj [(''question_text'', JStr ''2+2?''),
            (''options'', JObj [(''A'', JStr ''4''), (''B'', JStr ''5'')]),
            (''correct_answer'', JStr ''A'')],
      JObj [(''question_text'', JStr ''3*3?''),
            (''options'', JObj [(''A'', JStr ''6''), (''B'', JStr ''9'')]),
            (''correct_answer'', JStr ''B''),
            (''explanation'', JStr ''3*3=9''),
            (''topic'', JStr ''Arithmetic''),
            (''difficulty'', JStr ''Easy'')]]"

definition sample_test :: json where
  "sample_test = JObj [(''questions'', JArr sample_questions)]"

text \<open>A response payload whose question list is empty.\<close>

definition empty_payload :: string where
  \<open>empty_payload = ''{"questions": []}''\<close>

text \<open>A response whose span holds an integer literal of 4301 digits.\<close>

definition long_integer_payload :: string where
  \<open>long_integer_payload = ''{"n": '' @ replicate 4301 (CHR ''1'') @ '' x}''\<close>

text \<open>
  A decoder that does on the texts used below what \<^verbatim>\<open>json.loads\<close> does on them: it decodes
  the sample payload, the object with an empty question list and an object of another
  shape, raises \<^verbatim>\<open>ValueError\<close> on the integer literal of 4301 digits, and rejects the text
  \<^verbatim>\<open>{a} and {b}\<close> with the message of \<^verbatim>\<open>json.JSONDecodeError\<close>. What it does on other texts plays
  no role.
\<close>

definition sample_loads :: "string \<Rightarrow> decoded" where
  \<open>sample_loads t =
     (if t = sample_payload then Decoded sample_test
      else if t = empty_payload then Decoded (JObj [(''questions'', JArr [])])
      else if t = ''{"quiz": 3}'' then Decoded (JObj [(''quiz'', JInt 3)])
      else if t = long_integer_payload then Raised ValueError
      else JSONDecodeError
             ''Expecting property name enclosed in double quotes: line 1 column 2 (char 1)'')\<close>

definition sample_inputs :: inputs where
  "sample_inputs =
     \<lparr> name_field = ''Asha'', api_key_field = ''sk-test'', selected_topics = [''Kinematics''],
       selected_answer = Some ''A'', clicked = None \<rparr>"

text \<open>
  Twenty copies of one question whose correct label is A, and an answer map that holds the
  label A for the first eleven of them and nothing for the other nine.
\<close>

definition twenty_questions :: "json list" where
  "twenty_questions =
     replicate 20
       (JObj [(''question_text'', JStr ''2+2?''),
              (''options'', JObj [(''A'', JStr ''4''), (''B'', JStr ''5'')]),
              (''correct_answer'', JStr ''A'')])"

definition eleven_answers :: "string \<rightharpoonup> string" where
  "eleven_answers =
     map_of [(''q_1'', ''A''), (''q_2'', ''A''), (''q_3'', ''A''), (''q_4'', ''A''),
             (''q_5'', ''A''), (''q_6'', ''A''), (''q_7'', ''A''), (''q_8'', ''A''),
             (''q_9'', ''A''), (''q_10'', ''A''), (''q_11'', ''A'')]"

text \<open>A session on the first of the two sample questions, with no answer stored yet.\<close>

definition sample_in_progress :: session where
  "sample_in_progress =
     \<lparr> test_created = True, test_data = sample_test, test_started = True,
       test_completed = False, student_answers = map_of [], current_question = 0,
       student_name = ''Asha'' \<rparr>"

text \<open>
  A response with the sample payload between two sentences, the session after the generation
  service gave this response, and the session after the student then pressed the start
  button.
\<close>

definition sample_response :: string where
  "sample_response = ''Here is your quiz: '' @ sample_payload @ '' Good luck!''"

definition sample_test_created :: session_state where
  "sample_test_created =
     session_after
       (main sample_loads (Inr (Some sample_response)) deleted
          (sample_inputs\<lparr>clicked := Some CreateMyTest\<rparr>))"

definition sample_test_started :: session_state where
  "sample_test_started =
     session_after
       (main sample_loads (Inl []) sample_test_created
          (sample_inputs\<lparr>clicked := Some StartTest\<rparr>))"

text \<open>
  The session after the generation service answered with an object whose question list is
  empty, and the session after the student then pressed the start button.
\<close>

definition empty_test_created :: session_state where
  "empty_test_created =
     session_after
       (main sample_loads (Inr (Some empty_payload)) deleted
          (sample_inputs\<lparr>clicked := Some CreateMyTest\<rparr>))"

definition empty_test_started :: session_state where
  "empty_test_started =
     session_after
       (main sample_loads (Inl []) empty_test_created
          (sample_inputs\<lparr>clicked := Some StartTest\<rparr>))"

section \<open>Auxiliary facts\<close>

lemma andthen_simps [simp]:
  "andthen (Inl e) f = Inl e"
  "andthen (Inr x) f = f x"
  by (simp_all add: andthen_def)

lemma andthen_Inr_iff: "andthen m f = Inr y \<longleftrightarrow> (\<exists>x. m = Inr x \<and> f x = Inr y)"
  by (cases m) simp_all

lemma guard_simps [simp]:
  "guard s (Inl e) f = crashed s e"
  "guard s (Inr x) f = f x"
  by (simp_all add: guard_def)

subsection \<open>Answer keys are distinct for distinct question numbers\<close>

lemma digit_char_cases:
  "d < 10 \<Longrightarrow> d = 0 \<or> d = 1 \<or> d = 2 \<or> d = 3 \<or> d = 4 \<or> d = 5 \<or> d = 6 \<or> d = 7 \<or> d = 8 \<or> d = (9::nat)"
  by arith

lemma digit_char_inj: "a < 10 \<Longrightarrow> b < 10 \<Longrightarrow> digit_char a = digit_char b \<Longrightarrow> a = b"
proof -
  assume a: "a < 10" and b: "b < 10" and eq: "digit_char a = digit_char b"
  have d: "distinct ''0123456789''" by simp
  have "length ''0123456789'' = 10" by simp
  with a b eq d show "a = b"
    unfolding digit_char_def by (metis nth_eq_iff_index_eq)
qed

lemma digit_char_not_minus: "d < 10 \<Longrightarrow> digit_char d \<noteq> CHR ''-''"
proof -
  assume "d < 10"
  then have "d = 0 \<or> d = 1 \<or> d = 2 \<or> d = 3 \<or> d = 4 \<or> d = 5 \<or> d = 6 \<or> d = 7 \<or> d = 8 \<or> d = 9"
    by (rule digit_char_cases)
  then show ?thesis by (auto simp: digit_char_def)
qed

lemma str_nat_nonempty: "str_nat n \<noteq> []"
  by (subst str_nat.simps) simp

lemma str_nat_inj: "str_nat m = str_nat n \<Longrightarrow> m = n"
proof (induction m arbitrary: n rule: str_nat.induct)
  case (1 m)
  show ?case
  proof (cases "m < 10")
    case small_m: True
    show ?thesis
    proof (cases "n < 10")
      case True
      with small_m "1.prems" show ?thesis
        by (simp add: str_nat.simps[of m] str_nat.simps[of n] digit_char_inj)
    next
      case False
      with small_m "1.prems" str_nat_nonempty[of "n div 10"] show ?thesis
        by (simp add: str_nat.simps[of m] str_nat.simps[of n])
    qed
  next
    case big_m: False
    show ?thesis
    proof (cases "n < 10")
      case True
      with big_m "1.prems" str_nat_nonempty[of "m div 10"] show ?thesis
        by (simp add: str_nat.simps[of m] str_nat.simps[of n])
    next
      case False
      with big_m "1.prems" have eq: "str_nat (m div 10) = str_nat (n div 10)"
        and dg: "digit_char (m mod 10) = digit_char (n mod 10)"
        by (simp_all add: str_nat.simps[of m] str_nat.simps[of n])
      from "1.IH"[OF big_m eq] have "m div 10 = n div 10" .
      moreover from dg have "m mod 10 = n mod 10" by (simp add: digit_char_inj)
      ultimately show ?thesis by (metis div_mult_mod_eq)
    qed
  qed
qed

lemma str_nat_no_minus: "CHR ''-'' \<notin> set (str_nat n)"
proof (induction n rule: str_nat.induct)
  case (1 n)
  show ?case
  proof (cases "n < 10")
    case True
    then show ?thesis
      by (simp add: str_nat.simps[of n] digit_char_not_minus[THEN not_sym])
  next
    case False
    with "1.IH" show ?thesis
      by (simp add: str_nat.simps[of n] digit_char_not_minus[THEN not_sym])
  qed
qed

lemma str_int_inj: "str_int i = str_int j \<Longrightarrow> i = j"
proof -
  assume eq: "str_int i = str_int j"
  have hd_nat: "\<And>n. hd (str_nat n) \<noteq> CHR ''-''"
    using str_nat_no_minus str_nat_nonempty by (metis hd_in_set)
  show "i = j"
  proof (cases "i < 0"; cases "j < 0")
    assume "i < 0" "j < 0"
    with eq have "nat (- i) = nat (- j)" by (simp add: str_int_def str_nat_inj)
    with \<open>i < 0\<close> \<open>j < 0\<close> show ?thesis by simp
  next
    assume "i < 0" "\<not> j < 0"
    with eq hd_nat[of "nat j"] show ?thesis
      by (auto simp: str_int_def dest: arg_cong[where f=hd])
  next
    assume "\<not> i < 0" "j < 0"
    with eq hd_nat[of "nat i"] show ?thesis
      by (auto simp: str_int_def dest: arg_cong[where f=hd])
  next
    assume "\<not> i < 0" "\<not> j < 0"
    with eq have "nat i = nat j" by (simp add: str_int_def str_nat_inj)
    with \<open>\<not> i < 0\<close> \<open>\<not> j < 0\<close> show ?thesis by simp
  qed
qed

lemma answer_key_inj: "answer_key i = answer_key j \<longleftrightarrow> i = j"
  by (auto simp: answer_key_def dest: str_int_inj)

lemma answer_key_1: "answer_key 1 = ''q_1''"
  by (simp add: answer_key_def str_int_def str_nat.simps digit_char_def)

lemma answer_key_2: "answer_key 2 = ''q_2''"
  by (simp add: answer_key_def str_int_def str_nat.simps digit_char_def)

subsection \<open>The regular expression finds the span from the first to the last brace\<close>

lemma greedy_to_brace_eq:
  "greedy_to_brace cs =
     (if CHR ''}'' \<in> set cs then Some (rev (dropWhile (\<lambda>c. c \<noteq> CHR ''}'') (rev cs))) else None)"
  by (induction cs) (auto simp: dropWhile_append)

lemma brace_span_skip: "c \<noteq> CHR ''{'' \<Longrightarrow> brace_span (c # cs) = brace_span cs"
  by (simp add: brace_span_def)

lemma brace_span_open:
  "brace_span (CHR ''{'' # cs) =
     (if CHR ''}'' \<in> set cs
      then Some (CHR ''{'' # rev (dropWhile (\<lambda>c. c \<noteq> CHR ''}'') (rev cs)))
      else None)"
  by (auto simp: brace_span_def dropWhile_append)

lemma brace_span_no_close: "CHR ''}'' \<notin> set cs \<Longrightarrow> brace_span cs = None"
proof -
  assume "CHR ''}'' \<notin> set cs"
  then have "CHR ''}'' \<notin> set (dropWhile (\<lambda>c. c \<noteq> CHR ''{'') cs)"
    by (meson set_dropWhileD)
  then show ?thesis by (simp add: brace_span_def)
qed

lemma re_search_eq: "re_search t = brace_span t"
proof (induction t)
  case Nil
  show ?case by (simp add: brace_span_def)
next
  case (Cons c cs)
  show ?case
  proof (cases "c = CHR ''{''")
    case False
    with Cons show ?thesis by (simp add: brace_span_skip)
  next
    case True
    show ?thesis
    proof (cases "CHR ''}'' \<in> set cs")
      case True
      with \<open>c = CHR ''{''\<close> show ?thesis
        by (simp add: greedy_to_brace_eq brace_span_open)
    next
      case False
      with \<open>c = CHR ''{''\<close> Cons show ?thesis
        by (simp add: greedy_to_brace_eq brace_span_open brace_span_no_close)
    qed
  qed
qed

lemma brace_span_no_open: "CHR ''{'' \<notin> set t \<Longrightarrow> brace_span t = None"
proof -
  assume "CHR ''{'' \<notin> set t"
  then have "\<forall>c\<in>set t. c \<noteq> CHR ''{''" by auto
  then have d: "dropWhile (\<lambda>c. c \<noteq> CHR ''{'') t = []"
    by (rule dropWhile_eq_Nil_conv[THEN iffD2])
  show ?thesis unfolding brace_span_def d by simp
qed

lemma brace_span_embedded:
  assumes "CHR ''{'' \<notin> set prefix" and "CHR ''}'' \<notin> set suffix"
  shows "brace_span (prefix @ CHR ''{'' # body @ CHR ''}'' # suffix) = Some (CHR ''{'' # body @ ''}'')"
proof -
  from assms(1) have d: "dropWhile (\<lambda>c. c \<noteq> CHR ''{'') (prefix @ CHR ''{'' # body @ CHR ''}'' # suffix)
      = CHR ''{'' # body @ CHR ''}'' # suffix"
    by (induction prefix) auto
  from assms(2) have e: "dropWhile (\<lambda>c. c \<noteq> CHR ''}'') (rev suffix @ CHR ''}'' # rev body @ ''{'')
      = CHR ''}'' # rev body @ ''{''"
    by (simp add: dropWhile_append)
  show ?thesis
    unfolding brace_span_def d Let_def using e by simp
qed

section \<open>Response parser: claims\<close>

text \<open>
  Claim C5. The parser takes the substring from the first opening brace to the last closing
  brace of the response text and decodes it: whatever the decoder, the result of
  \<open>parse_mcq_response\<close> is computed from \<open>brace_span\<close> of the text. In particular, when a text
  \<open>{body}\<close> that decodes to \<open>v\<close> stands between a prefix without opening brace and a suffix
  without closing brace (so also when neither contains any brace), parsing succeeds without
  an error message and returns \<open>v\<close> itself, hence the very questions array of the decoded
  object.
\<close>

theorem parse_mcq_response_first_to_last_brace:
  "parse_mcq_response loads text =
     (case brace_span text of
        None \<Rightarrow> Inr (JNull, [''Could not find valid JSON in the response''])
      | Some json_text \<Rightarrow>
          (case loads json_text of
             Decoded v \<Rightarrow> Inr (v, [])
           | JSONDecodeError e \<Rightarrow> Inr (JNull, [''Error parsing JSON response: '' @ e])
           | Raised e \<Rightarrow> Inl e))
   \<and> (CHR ''{'' \<notin> set prefix \<and> CHR ''}'' \<notin> set suffix \<and>
        loads (CHR ''{'' # body @ ''}'') = Decoded v \<longrightarrow>
        parse_mcq_response loads (prefix @ CHR ''{'' # body @ CHR ''}'' # suffix) = Inr (v, []))"
proof
  show "parse_mcq_response loads text =
     (case brace_span text of
        None \<Rightarrow> Inr (JNull, [''Could not find valid JSON in the response''])
      | Some json_text \<Rightarrow>
          (case loads json_text of
             Decoded v \<Rightarrow> Inr (v, [])
           | JSONDecodeError e \<Rightarrow> Inr (JNull, [''Error parsing JSON response: '' @ e])
           | Raised e \<Rightarrow> Inl e))"
    by (simp add: parse_mcq_response_def re_search_eq split: option.splits decoded.splits)
next
  show "CHR ''{'' \<notin> set prefix \<and> CHR ''}'' \<notin> set suffix \<and>
        loads (CHR ''{'' # body @ ''}'') = Decoded v \<longrightarrow>
        parse_mcq_response loads (prefix @ CHR ''{'' # body @ CHR ''}'' # suffix) = Inr (v, [])"
    by (simp add: parse_mcq_response_def re_search_eq brace_span_embedded)
qed

theorem parse_mcq_response_first_to_last_brace_witness:
  "CHR ''{'' \<notin> set ''Here is your quiz: '' \<and> CHR ''}'' \<notin> set '' Good luck!'' \<and>
   sample_loads sample_payload = Decoded sample_test \<and>
   parse_mcq_response sample_loads (''Here is your quiz: '' @ sample_payload @ '' Good luck!'')
     = Inr (sample_test, []) \<and>
   andthen (py_getitem sample_test ''questions'') py_len = Inr 2"
proof -
  define body where "body = tl (butlast sample_payload)"
  have b: "sample_payload = CHR ''{'' # body @ ''}''"
    by (simp add: body_def sample_payload_def)
  have p: "CHR ''{'' \<notin> set ''Here is your quiz: ''" by simp
  have s: "CHR ''}'' \<notin> set '' Good luck!''" by simp
  have d: "sample_loads sample_payload = Decoded sample_test"
    by (simp add: sample_loads_def)
  have n: "andthen (py_getitem sample_test ''questions'') py_len = Inr 2"
    by (simp add: sample_test_def sample_questions_def)
  have t: "''Here is your quiz: '' @ sample_payload @ '' Good luck!''
             = ''Here is your quiz: '' @ CHR ''{'' # body @ CHR ''}'' # '' Good luck!''"
    unfolding b by simp
  from parse_mcq_response_first_to_last_brace
         [of sample_loads "[]" "''Here is your quiz: ''" "'' Good luck!''" body sample_test]
       p s d[unfolded b]
  have "parse_mcq_response sample_loads
          (''Here is your quiz: '' @ CHR ''{'' # body @ CHR ''}'' # '' Good luck!'')
        = Inr (sample_test, [])"
    by blast
  then have "parse_mcq_response sample_loads
          (''Here is your quiz: '' @ sample_payload @ '' Good luck!'') = Inr (sample_test, [])"
    unfolding t .
  with p s d n show ?thesis by blast
qed

text \<open>
  What the parser does when no question set can be had. A response text without an opening
  brace, and more generally one without a brace span, makes it return \<^verbatim>\<open>None\<close> and report
  that no JSON was found; a span that the decoder rejects with \<^verbatim>\<open>json.JSONDecodeError\<close> makes
  it return \<^verbatim>\<open>None\<close> and report the decoding error; a span on which the decoder raises any
  other exception makes the parser raise that exception: it returns nothing and reports
  nothing.
\<close>

lemma parse_mcq_response_failure:
  "(CHR ''{'' \<notin> set text \<longrightarrow>
      parse_mcq_response loads text =
        Inr (JNull, [''Could not find valid JSON in the response'']))
   \<and> (brace_span text = None \<longrightarrow>
      parse_mcq_response loads text =
        Inr (JNull, [''Could not find valid JSON in the response'']))
   \<and> (brace_span text = Some json_text \<and> loads json_text = JSONDecodeError e \<longrightarrow>
      parse_mcq_response loads text = Inr (JNull, [''Error parsing JSON response: '' @ e]))
   \<and> (brace_span text = Some json_text \<and> loads json_text = Raised x \<longrightarrow>
      parse_mcq_response loads text = Inl x)"
  by (simp add: parse_mcq_response_def re_search_eq brace_span_no_open)

lemma parse_mcq_response_rejected_span:
  "brace_span ''Use {a} and {b} here'' = Some ''{a} and {b}'' \<and>
   parse_mcq_response sample_loads ''Use {a} and {b} here'' =
     Inr (JNull,
      [''Error parsing JSON response: Expecting property name enclosed in double quotes: line 1 column 2 (char 1)''])"
proof -
  have c: "brace_span ''Use {a} and {b} here'' = Some ''{a} and {b}''"
    by (simp add: brace_span_def)
  have d: "sample_loads ''{a} and {b}'' =
      JSONDecodeError ''Expecting property name enclosed in double quotes: line 1 column 2 (char 1)''"
    by (simp add: sample_loads_def sample_payload_def empty_payload_def
                  long_integer_payload_def)
  from c d show ?thesis
    by (simp add: parse_mcq_response_def re_search_eq)
qed

text \<open>
  Claim C6 does not hold of the code for every span that fails to decode. The response text
  \<^verbatim>\<open>{"n": 11...1 x}\<close> with an integer literal of 4301 digits is its own brace span; on it
  \<^verbatim>\<open>json.loads\<close> raises a plain \<^verbatim>\<open>ValueError\<close>, which \<^verbatim>\<open>except json.JSONDecodeError\<close> does not
  catch: the parser returns no failure signal and reports no error, the exception leaves it.
\<close>

theorem parse_mcq_response_uncaught_decoder_error:
  "brace_span long_integer_payload = Some long_integer_payload \<and>
   sample_loads long_integer_payload = Raised ValueError \<and>
   parse_mcq_response sample_loads long_integer_payload = Inl ValueError"
proof -
  define body where \<open>body = ''"n": '' @ replicate 4301 (CHR ''1'') @ '' x''\<close>
  have b: "long_integer_payload = [] @ CHR ''{'' # body @ CHR ''}'' # []"
    by (simp add: long_integer_payload_def body_def)
  have span: "brace_span long_integer_payload = Some long_integer_payload"
  proof -
    have "brace_span ([] @ CHR ''{'' # body @ CHR ''}'' # []) = Some (CHR ''{'' # body @ ''}'')"
      by (rule brace_span_embedded) simp_all
    then show ?thesis unfolding b by simp
  qed
  have differs: "long_integer_payload \<noteq> sample_payload"
    "long_integer_payload \<noteq> empty_payload"
    \<open>long_integer_payload \<noteq> ''{"quiz": 3}''\<close>
    by (simp_all add: long_integer_payload_def sample_payload_def empty_payload_def)
  then have raised: "sample_loads long_integer_payload = Raised ValueError"
    by (simp add: sample_loads_def)
  from span raised show ?thesis
    by (simp add: parse_mcq_response_def re_search_eq)
qed

text \<open>
  Claim C8. When the brace span of the response text decodes, the parser returns the decoded
  value as it is and reports nothing, whatever its shape: there is no condition on the
  value.
\<close>

theorem parse_mcq_response_no_schema_check:
  "brace_span text = Some json_text \<Longrightarrow> loads json_text = Decoded v \<Longrightarrow>
   parse_mcq_response loads text = Inr (v, [])"
  by (simp add: parse_mcq_response_def re_search_eq)

theorem parse_mcq_response_no_schema_check_witness:
  \<open>brace_span ''Quiz: {"quiz": 3}'' = Some ''{"quiz": 3}'' \<and>
   sample_loads ''{"quiz": 3}'' = Decoded (JObj [(''quiz'', JInt 3)]) \<and>
   parse_mcq_response sample_loads ''Quiz: {"quiz": 3}'' = Inr (JObj [(''quiz'', JInt 3)], [])\<close>
proof -
  have a: \<open>brace_span ''Quiz: {"quiz": 3}'' = Some ''{"quiz": 3}''\<close>
    by (simp add: brace_span_def)
  have b: \<open>sample_loads ''{"quiz": 3}'' = Decoded (JObj [(''quiz'', JInt 3)])\<close>
    by (simp add: sample_loads_def sample_payload_def empty_payload_def)
  from parse_mcq_response_no_schema_check
         [of \<open>''Quiz: {"quiz": 3}''\<close> \<open>''{"quiz": 3}''\<close> sample_loads
             "JObj [(''quiz'', JInt 3)]"] a b
  show ?thesis by simp
qed

section \<open>Scorer: claims\<close>

lemma py_eq_iff:
  "py_eq given expected \<longleftrightarrow>
     (case given of Some a \<Rightarrow> expected = JStr a | None \<Rightarrow> expected = JNull)"
  by (cases given; cases expected) auto

lemma score_question_scorable:
  assumes "scorable q"
  shows "\<exists>r. score_question i q answers = Inr r \<and>
           question_number r = i + 1 \<and>
           student_answer r = answers (answer_key (int i + 1)) \<and>
           py_getitem q ''correct_answer'' = Inr (correct_answer r) \<and>
           py_getitem q ''question_text'' = Inr (question_text r) \<and>
           py_getitem q ''options'' = Inr (options r) \<and>
           is_correct r = py_eq (student_answer r) (correct_answer r) \<and>
           py_get q ''explanation'' (JStr ''No explanation provided'') = Inr (explanation r) \<and>
           py_get q ''topic'' (JStr ''General'') = Inr (topic r) \<and>
           py_get q ''difficulty'' (JStr ''Medium'') = Inr (difficulty r)"
proof (cases q)
  case (JObj kvs)
  with assms obtain ca qt os where
    "map_of kvs ''correct_answer'' = Some ca" "map_of kvs ''question_text'' = Some qt"
    "map_of kvs ''options'' = Some os"
    by auto
  with JObj show ?thesis
    by (simp add: score_question_def Let_def add.commute split: option.splits)
qed (use assms in simp_all)

lemma score_question_needs_fields: "score_question i q answers = Inr r \<Longrightarrow> scorable q"
  by (cases q) (auto simp: score_question_def Let_def andthen_def split: option.splits sum.splits)

lemma score_loop_scorable:
  assumes "list_all scorable qs"
  shows "\<exists>new. score_loop i qs answers correct rs =
                 Inr (correct + length (filter is_correct new), rs @ new) \<and>
               length new = length qs \<and>
               (\<forall>j<length qs. score_question (i + j) (qs ! j) answers = Inr (new ! j))"
  using assms
proof (induction qs arbitrary: i correct rs)
  case Nil
  show ?case by simp
next
  case (Cons q qs)
  from Cons.prems have "scorable q" and rest: "list_all scorable qs" by simp_all
  from score_question_scorable[OF \<open>scorable q\<close>, of i answers]
  obtain r where r: "score_question i q answers = Inr r" by blast
  from Cons.IH[OF rest, of "i + 1" "if is_correct r then correct + 1 else correct" "rs @ [r]"]
  obtain new where
    loop: "score_loop (i + 1) qs answers (if is_correct r then correct + 1 else correct) (rs @ [r])
             = Inr ((if is_correct r then correct + 1 else correct)
                      + length (filter is_correct new), (rs @ [r]) @ new)"
    and len: "length new = length qs"
    and each: "\<forall>j<length qs. score_question (i + 1 + j) (qs ! j) answers = Inr (new ! j)"
    by blast
  have "score_loop i (q # qs) answers correct rs =
          Inr (correct + length (filter is_correct (r # new)), rs @ (r # new))"
    using r loop by simp
  moreover have "length (r # new) = length (q # qs)" using len by simp
  moreover have "\<forall>j<length (q # qs).
      score_question (i + j) ((q # qs) ! j) answers = Inr ((r # new) ! j)"
  proof (intro allI impI)
    fix j assume "j < length (q # qs)"
    then show "score_question (i + j) ((q # qs) ! j) answers = Inr ((r # new) ! j)"
      using r each by (cases j) simp_all
  qed
  ultimately show ?case by blast
qed

lemma score_loop_needs_fields:
  "score_loop i qs answers correct rs = Inr out \<Longrightarrow> list_all scorable qs"
proof (induction qs arbitrary: i correct rs)
  case Nil
  show ?case by simp
next
  case (Cons q qs)
  from Cons.prems obtain r where r: "score_question i q answers = Inr r"
    and "score_loop (i + 1) qs answers (if is_correct r then correct + 1 else correct) (rs @ [r])
           = Inr out"
    by (auto simp: andthen_Inr_iff)
  with Cons.IH score_question_needs_fields[OF r] show ?case by simp
qed

lemma calculate_score_scorable:
  assumes "qs \<noteq> []" and "list_all scorable qs"
  shows "\<exists>rs. calculate_score (JArr qs) answers =
               Inr \<lparr> total_questions = length qs,
                     correct_answers = length (filter is_correct rs),
                     score_percentage =
                       round_double
                         (round_double (of_nat (length (filter is_correct rs)) / of_nat (length qs))
                          * 100),
                     results = rs \<rparr> \<and>
              length rs = length qs \<and>
              (\<forall>j<length qs. score_question j (qs ! j) answers = Inr (rs ! j))"
proof -
  from score_loop_scorable[OF assms(2), of 0 answers 0 "[]"]
  obtain rs where "score_loop 0 qs answers 0 [] = Inr (length (filter is_correct rs), rs)"
    and "length rs = length qs"
    and "\<forall>j<length qs. score_question j (qs ! j) answers = Inr (rs ! j)"
    by auto
  with assms(1) show ?thesis
    by (auto simp: calculate_score_def py_truediv_def py_float_mul_def)
qed

lemma calculate_score_needs_fields:
  "calculate_score (JArr qs) answers = Inr score \<Longrightarrow> qs \<noteq> [] \<and> list_all scorable qs"
  by (auto simp: calculate_score_def py_truediv_def andthen_Inr_iff split: if_splits
           dest: score_loop_needs_fields)

text \<open>
  The scorer returns on lists only: a dict or a string of questions either is empty, and the
  percentage divides by zero, or has an item that is a string and cannot be subscripted.
\<close>

lemma calculate_score_needs_list:
  assumes "calculate_score questions answers = Inr score"
  shows "\<exists>qs. questions = JArr qs"
proof -
  from assms obtain count qs out ratio where len: "py_len questions = Inr count"
    and iter: "py_iter questions = Inr qs"
    and loop: "score_loop 0 qs answers 0 [] = Inr out"
    and ratio: "py_truediv (fst out) count = Inr ratio"
    by (auto simp: calculate_score_def andthen_Inr_iff)
  from score_loop_needs_fields[OF loop] have fields: "list_all scorable qs" .
  from ratio have count: "count \<noteq> 0" by (auto simp: py_truediv_def split: if_splits)
  show ?thesis
  proof (cases questions)
    case (JArr xs)
    then show ?thesis by simp
  next
    case (JObj kvs)
    with iter fields have "remdups (map fst kvs) = []"
      by (cases "remdups (map fst kvs)") auto
    with JObj len count show ?thesis by simp
  next
    case (JStr t)
    with iter fields have "t = []" by (cases t) auto
    with JStr len count show ?thesis by simp
  qed (use len in simp_all)
qed

lemma labelled_scorable: "labelled q \<Longrightarrow> scorable q"
  by (cases q) simp_all

lemma labelled_label: "labelled q \<Longrightarrow> \<exists>a. py_getitem q ''correct_answer'' = Inr (JStr a)"
proof (cases q)
  case (JObj kvs)
  assume "labelled q"
  with JObj obtain v where v: "map_of kvs ''correct_answer'' = Some v" "is_label v"
    by (auto split: option.splits)
  then obtain a where "v = JStr a" by (cases v) simp_all
  with v JObj show ?thesis by simp
qed simp_all

text \<open>
  The two roundings of the percentage at work: one correct answer of two gives 50, eleven of
  twenty give the double next above 55, which Python prints as \<^verbatim>\<open>55.00000000000001\<close>.
\<close>

lemma percentage_1_of_2: "round_double (round_double (1 / 2) * 100) = 50"
  by code_simp

lemma percentage_11_of_20: "round_double (round_double (11 / 20) * 100) = 55 + 1 / 2 ^ 47"
  by code_simp

lemma eleven_of_twenty:
  "(case calculate_score (JArr twenty_questions) eleven_answers of
      Inl e \<Rightarrow> False
    | Inr score \<Rightarrow> total_questions score = 20 \<and> correct_answers score = 11 \<and>
        score_percentage score = 55 + 1 / 2 ^ 47)"
  by code_simp

text \<open>
  Claim C1, as stated, fails in its last clause: the percentage is computed in double
  precision and is not always the exact value of \<^verbatim>\<open>correct_count / total * 100\<close>. With eleven
  correct answers of twenty the exact value is 55, and the scorer returns the double next
  above it.
\<close>

theorem calculate_score_inexact_percentage_counterexample:
  "twenty_questions \<noteq> [] \<and> list_all labelled twenty_questions \<and>
   (\<exists>score. calculate_score (JArr twenty_questions) eleven_answers = Inr score \<and>
      total_questions score = 20 \<and> correct_answers score = 11 \<and>
      score_percentage score = 55 + 1 / 2 ^ 47 \<and>
      score_percentage score \<noteq>
        of_nat (correct_answers score) / of_nat (total_questions score) * 100)"
proof -
  have a: "twenty_questions \<noteq> []" by (simp add: twenty_questions_def)
  have b: "list_all labelled twenty_questions"
    by (simp add: twenty_questions_def list_all_iff)
  from eleven_of_twenty obtain score where
    "calculate_score (JArr twenty_questions) eleven_answers = Inr score"
    "total_questions score = 20" "correct_answers score = 11"
    "score_percentage score = 55 + 1 / 2 ^ 47"
    by (auto split: sum.splits)
  with a b show ?thesis by auto
qed

text \<open>
  Claim C1, amended. For every non-empty list of question records with the three fields of
  the scorer and a label as correct answer, and every answer map, the scorer returns a
  report. Its count of correct answers is the number of questions whose stored answer is
  present and equal, as a string, to the question's correct label; an absent answer is
  incorrect. Its percentage is \<^verbatim>\<open>correct / total * 100\<close> as double arithmetic evaluates it:
  the quotient rounded to a double, times 100, rounded to a double. Its results are in
  question order, one per question, numbered from 1, each with the stored answer and the
  correct label of its question and with \<open>is_correct\<close> set accordingly.
\<close>

theorem calculate_score_counts:
  assumes "qs \<noteq> []" and "list_all labelled qs"
  shows "\<exists>score. calculate_score (JArr qs) answers = Inr score \<and>
           total_questions score = length qs \<and>
           correct_answers score =
             card {i. i < length qs \<and>
                      (\<exists>a. answers (answer_key (int i + 1)) = Some a \<and>
                           py_getitem (qs ! i) ''correct_answer'' = Inr (JStr a))} \<and>
           score_percentage score =
             round_double
               (round_double (of_nat (correct_answers score) / of_nat (total_questions score))
                * 100) \<and>
           length (results score) = length qs \<and>
           (\<forall>i<length qs.
              question_number (results score ! i) = i + 1 \<and>
              student_answer (results score ! i) = answers (answer_key (int i + 1)) \<and>
              py_getitem (qs ! i) ''correct_answer'' = Inr (correct_answer (results score ! i)) \<and>
              (is_correct (results score ! i) \<longleftrightarrow>
                 (\<exists>a. answers (answer_key (int i + 1)) = Some a \<and>
                      correct_answer (results score ! i) = JStr a)) \<and>
              (answers (answer_key (int i + 1)) = None \<longrightarrow>
                 \<not> is_correct (results score ! i)))"
proof -
  from assms(2) have scorable: "list_all scorable qs"
    by (auto simp: list_all_iff labelled_scorable)
  from calculate_score_scorable[OF assms(1) scorable, of answers]
  obtain rs where
    score: "calculate_score (JArr qs) answers =
              Inr \<lparr> total_questions = length qs,
                    correct_answers = length (filter is_correct rs),
                    score_percentage =
                      round_double
                        (round_double (of_nat (length (filter is_correct rs)) / of_nat (length qs))
                         * 100),
                    results = rs \<rparr>"
    and len: "length rs = length qs"
    and each: "\<forall>j<length qs. score_question j (qs ! j) answers = Inr (rs ! j)"
    by blast
  have per_question: "\<forall>i<length qs.
      question_number (rs ! i) = i + 1 \<and>
      student_answer (rs ! i) = answers (answer_key (int i + 1)) \<and>
      py_getitem (qs ! i) ''correct_answer'' = Inr (correct_answer (rs ! i)) \<and>
      (is_correct (rs ! i) \<longleftrightarrow>
         (\<exists>a. answers (answer_key (int i + 1)) = Some a \<and> correct_answer (rs ! i) = JStr a)) \<and>
      (answers (answer_key (int i + 1)) = None \<longrightarrow> \<not> is_correct (rs ! i))"
  proof (intro allI impI)
    fix i assume i: "i < length qs"
    with assms(2) have l: "labelled (qs ! i)" by (simp add: list_all_length)
    from labelled_label[OF l] obtain b where b: "py_getitem (qs ! i) ''correct_answer'' = Inr (JStr b)"
      by blast
    from score_question_scorable[OF labelled_scorable[OF l], of i answers] each i b
    show "question_number (rs ! i) = i + 1 \<and>
      student_answer (rs ! i) = answers (answer_key (int i + 1)) \<and>
      py_getitem (qs ! i) ''correct_answer'' = Inr (correct_answer (rs ! i)) \<and>
      (is_correct (rs ! i) \<longleftrightarrow>
         (\<exists>a. answers (answer_key (int i + 1)) = Some a \<and> correct_answer (rs ! i) = JStr a)) \<and>
      (answers (answer_key (int i + 1)) = None \<longrightarrow> \<not> is_correct (rs ! i))"
      by (auto simp: py_eq_iff split: option.splits)
  qed
  have "{i. i < length rs \<and> is_correct (rs ! i)} =
        {i. i < length qs \<and>
            (\<exists>a. answers (answer_key (int i + 1)) = Some a \<and>
                 py_getitem (qs ! i) ''correct_answer'' = Inr (JStr a))}"
    using per_question len by auto
  then have card: "length (filter is_correct rs) =
      card {i. i < length qs \<and>
               (\<exists>a. answers (answer_key (int i + 1)) = Some a \<and>
                    py_getitem (qs ! i) ''correct_answer'' = Inr (JStr a))}"
    by (simp add: length_filter_conv_card)
  define score where
    "score = \<lparr> total_questions = length qs,
                correct_answers = length (filter is_correct rs),
                score_percentage =
                  round_double
                    (round_double (of_nat (length (filter is_correct rs)) / of_nat (length qs))
                     * 100),
                results = rs \<rparr>"
  have sel: "results score = rs" "total_questions score = length qs"
    "correct_answers score = length (filter is_correct rs)"
    "score_percentage score =
       round_double
         (round_double (of_nat (length (filter is_correct rs)) / of_nat (length qs)) * 100)"
    by (simp_all add: score_def)
  show ?thesis
  proof (intro exI[of _ score] conjI)
    show "calculate_score (JArr qs) answers = Inr score"
      using score by (simp add: score_def)
    show "total_questions score = length qs" by (simp add: sel)
    show "correct_answers score =
             card {i. i < length qs \<and>
                      (\<exists>a. answers (answer_key (int i + 1)) = Some a \<and>
                           py_getitem (qs ! i) ''correct_answer'' = Inr (JStr a))}"
      unfolding sel by (rule card)
    show "score_percentage score =
             round_double
               (round_double (of_nat (correct_answers score) / of_nat (total_questions score))
                * 100)"
      by (simp add: sel)
    show "length (results score) = length qs" by (simp add: sel len)
    show "\<forall>i<length qs.
              question_number (results score ! i) = i + 1 \<and>
              student_answer (results score ! i) = answers (answer_key (int i + 1)) \<and>
              py_getitem (qs ! i) ''correct_answer'' = Inr (correct_answer (results score ! i)) \<and>
              (is_correct (results score ! i) \<longleftrightarrow>
                 (\<exists>a. answers (answer_key (int i + 1)) = Some a \<and>
                      correct_answer (results score ! i) = JStr a)) \<and>
              (answers (answer_key (int i + 1)) = None \<longrightarrow>
                 \<not> is_correct (results score ! i))"
      unfolding sel by (rule per_question)
  qed
qed

theorem calculate_score_counts_witness:
  "sample_questions \<noteq> [] \<and> list_all labelled sample_questions \<and>
   calculate_score (JArr sample_questions) (map_of [(''q_1'', ''A''), (''q_2'', ''A'')]) =
     Inr \<lparr> total_questions = 2, correct_answers = 1, score_percentage = 50,
           results =
             [\<lparr> question_number = 1, question_text = JStr ''2+2?'',
                 options = JObj [(''A'', JStr ''4''), (''B'', JStr ''5'')],
                 student_answer = Some ''A'', correct_answer = JStr ''A'', is_correct = True,
                 explanation = JStr ''No explanation provided'', topic = JStr ''General'',
                 difficulty = JStr ''Medium'' \<rparr>,
              \<lparr> question_number = 2, question_text = JStr ''3*3?'',
                 options = JObj [(''A'', JStr ''6''), (''B'', JStr ''9'')],
                 student_answer = Some ''A'', correct_answer = JStr ''B'', is_correct = False,
                 explanation = JStr ''3*3=9'', topic = JStr ''Arithmetic'',
                 difficulty = JStr ''Easy'' \<rparr>] \<rparr>"
proof -
  have ne: "sample_questions \<noteq> []" by (simp add: sample_questions_def)
  have ok: "list_all labelled sample_questions" by (simp add: sample_questions_def)
  have computed: "calculate_score (JArr sample_questions) (map_of [(''q_1'', ''A''), (''q_2'', ''A'')]) =
     Inr \<lparr> total_questions = 2, correct_answers = 1, score_percentage = 50,
           results =
             [\<lparr> question_number = 1, question_text = JStr ''2+2?'',
                 options = JObj [(''A'', JStr ''4''), (''B'', JStr ''5'')],
                 student_answer = Some ''A'', correct_answer = JStr ''A'', is_correct = True,
                 explanation = JStr ''No explanation provided'', topic = JStr ''General'',
                 difficulty = JStr ''Medium'' \<rparr>,
              \<lparr> question_number = 2, question_text = JStr ''3*3?'',
                 options = JObj [(''A'', JStr ''6''), (''B'', JStr ''9'')],
                 student_answer = Some ''A'', correct_answer = JStr ''B'', is_correct = False,
                 explanation = JStr ''3*3=9'', topic = JStr ''Arithmetic'',
                 difficulty = JStr ''Easy'' \<rparr>] \<rparr>"
    by (simp add: calculate_score_def score_question_def sample_questions_def
                  py_truediv_def py_float_mul_def percentage_1_of_2
                  answer_key_1 answer_key_2)
  from calculate_score_counts[OF ne ok, of "map_of [(''q_1'', ''A''), (''q_2'', ''A'')]"] ne ok computed
  show ?thesis by simp
qed

text \<open>
  Claim C9. Scoring a list of question records succeeds exactly when the list is not empty
  (the percentage divides by its length) and every record carries \<^verbatim>\<open>correct_answer\<close>,
  \<^verbatim>\<open>question_text\<close> and \<^verbatim>\<open>options\<close>; no other field is required. In the result of a question
  the explanation, topic and difficulty are the record's own when it has them, and
  \<^verbatim>\<open>'No explanation provided'\<close>, \<^verbatim>\<open>'General'\<close> and \<^verbatim>\<open>'Medium'\<close> when it lacks them.
\<close>

theorem calculate_score_defaults:
  "((\<exists>score. calculate_score (JArr qs) answers = Inr score) \<longleftrightarrow>
      qs \<noteq> [] \<and> list_all scorable qs) \<and>
   (\<forall>score. calculate_score (JArr qs) answers = Inr score \<longrightarrow>
      length (results score) = length qs \<and>
      (\<forall>i<length qs. \<forall>kvs. qs ! i = JObj kvs \<longrightarrow>
         explanation (results score ! i) =
           (case map_of kvs ''explanation'' of
              None \<Rightarrow> JStr ''No explanation provided'' | Some v \<Rightarrow> v) \<and>
         topic (results score ! i) =
           (case map_of kvs ''topic'' of None \<Rightarrow> JStr ''General'' | Some v \<Rightarrow> v) \<and>
         difficulty (results score ! i) =
           (case map_of kvs ''difficulty'' of None \<Rightarrow> JStr ''Medium'' | Some v \<Rightarrow> v)))"
proof (intro conjI allI impI)
  show "(\<exists>score. calculate_score (JArr qs) answers = Inr score) \<longleftrightarrow>
      qs \<noteq> [] \<and> list_all scorable qs"
    using calculate_score_scorable[of qs answers] calculate_score_needs_fields[of qs answers]
    by blast
next
  fix score assume s: "calculate_score (JArr qs) answers = Inr score"
  from calculate_score_needs_fields[OF s] have ne: "qs \<noteq> []" and ok: "list_all scorable qs"
    by simp_all
  from calculate_score_scorable[OF ne ok, of answers] s
  have len: "length (results score) = length qs"
    and each: "\<forall>j<length qs. score_question j (qs ! j) answers = Inr (results score ! j)"
    by auto
  show "length (results score) = length qs" by (rule len)
  fix i kvs assume i: "i < length qs" and q: "qs ! i = JObj kvs"
  from ok i have "scorable (qs ! i)" by (simp add: list_all_length)
  from score_question_scorable[OF this, of i answers] each i q
  have "py_get (JObj kvs) ''explanation'' (JStr ''No explanation provided'')
          = Inr (explanation (results score ! i))"
    and "py_get (JObj kvs) ''topic'' (JStr ''General'') = Inr (topic (results score ! i))"
    and "py_get (JObj kvs) ''difficulty'' (JStr ''Medium'') = Inr (difficulty (results score ! i))"
    by auto
  then show "explanation (results score ! i) =
           (case map_of kvs ''explanation'' of
              None \<Rightarrow> JStr ''No explanation provided'' | Some v \<Rightarrow> v)"
    and "topic (results score ! i) =
           (case map_of kvs ''topic'' of None \<Rightarrow> JStr ''General'' | Some v \<Rightarrow> v)"
    and "difficulty (results score ! i) =
           (case map_of kvs ''difficulty'' of None \<Rightarrow> JStr ''Medium'' | Some v \<Rightarrow> v)"
    by (auto split: option.splits)
qed

theorem calculate_score_defaults_witness:
  "sample_questions \<noteq> [] \<and> list_all scorable sample_questions \<and>
   map explanation (results (projr (calculate_score (JArr sample_questions) (map_of [])))) =
     [JStr ''No explanation provided'', JStr ''3*3=9''] \<and>
   map topic (results (projr (calculate_score (JArr sample_questions) (map_of [])))) =
     [JStr ''General'', JStr ''Arithmetic''] \<and>
   map difficulty (results (projr (calculate_score (JArr sample_questions) (map_of [])))) =
     [JStr ''Medium'', JStr ''Easy'']"
proof -
  have ne: "sample_questions \<noteq> []" by (simp add: sample_questions_def)
  have ok: "list_all scorable sample_questions" by (simp add: sample_questions_def)
  from calculate_score_defaults[of sample_questions "map_of []"] ne ok
  obtain score where s: "calculate_score (JArr sample_questions) (map_of []) = Inr score"
    by blast
  with calculate_score_defaults[of sample_questions "map_of []"]
  have len: "length (results score) = length sample_questions"
    and each: "\<forall>i<length sample_questions. \<forall>kvs. sample_questions ! i = JObj kvs \<longrightarrow>
         explanation (results score ! i) =
           (case map_of kvs ''explanation'' of
              None \<Rightarrow> JStr ''No explanation provided'' | Some v \<Rightarrow> v) \<and>
         topic (results score ! i) =
           (case map_of kvs ''topic'' of None \<Rightarrow> JStr ''General'' | Some v \<Rightarrow> v) \<and>
         difficulty (results score ! i) =
           (case map_of kvs ''difficulty'' of None \<Rightarrow> JStr ''Medium'' | Some v \<Rightarrow> v)"
    by blast+
  from len obtain r0 r1 where rs: "results score = [r0, r1]"
    by (auto simp: sample_questions_def length_Suc_conv)
  from each[rule_format, of 0] each[rule_format, of 1] rs
  have "explanation r0 = JStr ''No explanation provided''" "topic r0 = JStr ''General''"
    "difficulty r0 = JStr ''Medium''" "explanation r1 = JStr ''3*3=9''"
    "topic r1 = JStr ''Arithmetic''" "difficulty r1 = JStr ''Easy''"
    by (simp_all add: sample_questions_def)
  with s rs ne ok show ?thesis by simp
qed

section \<open>Session: auxiliary facts\<close>

lemma initialise_stored [simp]: "initialise (stored s) = s"
  by (simp add: initialise_def stored_def)

lemma initialise_deleted:
  "initialise deleted =
     \<lparr> test_created = False, test_data = JNull, test_started = False, test_completed = False,
       student_answers = Map.empty, current_question = 0, student_name = [] \<rparr>"
  by (simp add: initialise_def deleted_def)

lemma outcome_simps [simp]:
  "session_after (page s errs bs) = stored s"
  "errors_shown (page s errs bs) = errs"
  "buttons_rendered (page s errs bs) = bs"
  "api_calls (page s errs bs) = 0"
  "uncaught (page s errs bs) = None"
  "rerun (page s errs bs) = False"
  "session_after (rerun_with st bs) = st"
  "errors_shown (rerun_with st bs) = []"
  "buttons_rendered (rerun_with st bs) = bs"
  "api_calls (rerun_with st bs) = 0"
  "uncaught (rerun_with st bs) = None"
  "rerun (rerun_with st bs) = True"
  "session_after (crashed s e) = stored s"
  "errors_shown (crashed s e) = []"
  "buttons_rendered (crashed s e) = []"
  "api_calls (crashed s e) = 0"
  "uncaught (crashed s e) = Some e"
  "rerun (crashed s e) = False"
  by (simp_all add: page_def rerun_with_def crashed_def)

lemma stage_of_simps:
  "stage_of s = Creating \<longleftrightarrow> \<not> test_created s"
  "stage_of s = Ready \<longleftrightarrow> test_created s \<and> \<not> test_started s"
  "stage_of s = InProgress \<longleftrightarrow> test_created s \<and> test_started s \<and> \<not> test_completed s"
  "stage_of s = Completed \<longleftrightarrow> test_created s \<and> test_started s \<and> test_completed s"
  by (auto simp: stage_of_def)

lemma main_stage:
  "main loads api st inp =
     (case stage_of (initialise st) of
        Creating \<Rightarrow> show_test_creation_interface loads api (initialise st) inp
      | Ready \<Rightarrow> show_test_start_interface (initialise st) inp
      | InProgress \<Rightarrow> show_test_interface (initialise st) inp
      | Completed \<Rightarrow> show_results_interface (initialise st) inp)"
  by (simp add: main_def stage_of_def Let_def)

lemma question_count_Inr:
  "question_count s = Inr n \<longleftrightarrow>
     (\<exists>questions. py_getitem (test_data s) ''questions'' = Inr questions \<and> py_len questions = Inr n)"
  by (simp add: question_count_def andthen_Inr_iff)

lemma py_getitem_truthy: "py_getitem d k = Inr v \<Longrightarrow> py_truthy d"
  by (cases d) (auto split: option.splits)

subsection \<open>The question screen\<close>

lemma save_answer_fields [simp]:
  "test_created (save_answer s q sel) = test_created s"
  "test_data (save_answer s q sel) = test_data s"
  "test_started (save_answer s q sel) = test_started s"
  "test_completed (save_answer s q sel) = test_completed s"
  "current_question (save_answer s q sel) = current_question s"
  "student_name (save_answer s q sel) = student_name s"
  by (simp_all add: save_answer_def split: option.splits)

lemma save_answer_answers:
  "student_answers (save_answer s q sel) =
     (case sel of
        None \<Rightarrow> student_answers s
      | Some a \<Rightarrow> if a = [] then student_answers s
                  else (student_answers s)(answer_key (q + 1) \<mapsto> a))"
  by (simp add: save_answer_def split: option.splits)

lemma question_count_save_answer [simp]:
  "question_count (save_answer s q sel) = question_count s"
  by (simp add: question_count_def)

text \<open>
  The question screen either leaves the session as it is (no test data, or an exception while
  the question is put on the page), or it reaches the navigation buttons, and then the list
  of questions has a length \<open>n > 0\<close> and the index is between \<open>-1\<close> and \<open>n - 1\<close>.
\<close>

lemma show_test_interface_cases:
  "(session_after (show_test_interface s inp) = stored s \<and>
    \<not> rerun (show_test_interface s inp) \<and> buttons_rendered (show_test_interface s inp) = []) \<or>
   (\<exists>n. question_count s = Inr n \<and> 0 < n \<and> - 1 \<le> current_question s \<and>
        current_question s < int n \<and>
        show_test_interface s inp = navigation s inp (current_question s) (int n))"
proof (cases "py_truthy (test_data s)")
  case False
  then show ?thesis by (simp add: show_test_interface_def)
next
  case truthy: True
  show ?thesis
  proof (cases "py_getitem (test_data s) ''questions''")
    case (Inl e)
    with truthy show ?thesis by (simp add: show_test_interface_def)
  next
    case questions: (Inr questions)
    show ?thesis
    proof (cases "py_len questions")
      case (Inl e)
      with truthy questions show ?thesis by (simp add: show_test_interface_def)
    next
      case len: (Inr n)
      have qc: "question_count s = Inr n"
        using questions len by (simp add: question_count_def)
      show ?thesis
      proof (cases "n = 0 \<or> current_question s + 1 < 0 \<or> int n < current_question s + 1")
        case True
        with truthy questions len show ?thesis
          by (auto simp: show_test_interface_def Let_def)
      next
        case False
        then have range: "0 < n" "- 1 \<le> current_question s" "current_question s < int n"
          by auto
        have unfolded: "show_test_interface s inp =
            guard s (py_index questions (current_question s)) (\<lambda>question.
            guard s (py_getitem question ''question_text'') (\<lambda>qtext.
            guard s (py_getitem question ''options'') (\<lambda>opts.
            guard s (py_keys opts) (\<lambda>labels.
              navigation s inp (current_question s) (int n)))))"
          using truthy questions len False
          by (simp add: show_test_interface_def Let_def)
        show ?thesis
        proof (cases "py_index questions (current_question s)")
          case (Inl e)
          with unfolded show ?thesis by simp
        next
          case question: (Inr question)
          show ?thesis
          proof (cases "py_getitem question ''question_text''")
            case (Inl e)
            with unfolded question show ?thesis by simp
          next
            case qtext: (Inr qtext)
            show ?thesis
            proof (cases "py_getitem question ''options''")
              case (Inl e)
              with unfolded question qtext show ?thesis by simp
            next
              case opts: (Inr opts)
              show ?thesis
              proof (cases "py_keys opts")
                case (Inl e)
                with unfolded question qtext opts show ?thesis by simp
              next
                case (Inr labels)
                with unfolded question qtext opts qc range show ?thesis by simp
              qed
            qed
          qed
        qed
      qed
    qed
  qed
qed

text \<open>
  Whether the navigation buttons are reached does not depend on the widget values: with the
  index in range, either every run raises the same exception, or every run reaches them.
\<close>

lemma show_test_interface_in_range:
  assumes "question_count s = Inr n" and "0 \<le> current_question s"
    and "current_question s < int n"
  shows "(\<exists>e. \<forall>inp. show_test_interface s inp = crashed s e) \<or>
         (\<forall>inp. show_test_interface s inp = navigation s inp (current_question s) (int n))"
proof -
  from assms(1) obtain questions where questions: "py_getitem (test_data s) ''questions'' = Inr questions"
    and len: "py_len questions = Inr n"
    by (auto simp: question_count_Inr)
  from questions have truthy: "py_truthy (test_data s)" by (rule py_getitem_truthy)
  have unfolded: "\<And>inp. show_test_interface s inp =
      guard s (py_index questions (current_question s)) (\<lambda>question.
      guard s (py_getitem question ''question_text'') (\<lambda>qtext.
      guard s (py_getitem question ''options'') (\<lambda>opts.
      guard s (py_keys opts) (\<lambda>labels.
        navigation s inp (current_question s) (int n)))))"
    using truthy questions len assms(2,3)
    by (simp add: show_test_interface_def Let_def)
  show ?thesis
  proof (cases "py_index questions (current_question s)")
    case (Inl e)
    with unfolded show ?thesis by auto
  next
    case question: (Inr question)
    show ?thesis
    proof (cases "py_getitem question ''question_text''")
      case (Inl e)
      with unfolded question show ?thesis by auto
    next
      case qtext: (Inr qtext)
      show ?thesis
      proof (cases "py_getitem question ''options''")
        case (Inl e)
        with unfolded question qtext show ?thesis by auto
      next
        case opts: (Inr opts)
        show ?thesis
        proof (cases "py_keys opts")
          case (Inl e)
          with unfolded question qtext opts show ?thesis by auto
        next
          case (Inr labels)
          with unfolded question qtext opts show ?thesis by auto
        qed
      qed
    qed
  qed
qed

lemma navigation_idle:
  "clicked inp \<noteq> Some Previous \<Longrightarrow> clicked inp \<noteq> Some Next \<Longrightarrow>
   clicked inp \<noteq> Some FinishTest \<Longrightarrow>
   session_after (navigation s inp q n) = stored s \<and> uncaught (navigation s inp q n) = None \<and>
   \<not> rerun (navigation s inp q n)"
  by (simp add: navigation_def Let_def)

lemma navigation_uncaught [simp]: "uncaught (navigation s inp q n) = None"
  by (simp add: navigation_def Let_def)

lemma navigation_buttons:
  "set (buttons_rendered (navigation s inp q n)) \<subseteq> {Previous, Next, FinishTest}"
  by (auto simp: navigation_def Let_def split: if_splits)

text \<open>The four things a run of the navigation buttons can do to the session.\<close>

lemma navigation_effect:
  "\<exists>s'. session_after (navigation s inp q n) = stored s' \<and>
     (s' = s \<or>
      clicked inp = Some Previous \<and> 0 < q \<and>
        s' = (save_answer s q (selected_answer inp))\<lparr>current_question := q - 1\<rparr> \<or>
      clicked inp = Some Next \<and> q < n - 1 \<and>
        s' = (save_answer s q (selected_answer inp))\<lparr>current_question := q + 1\<rparr> \<or>
      clicked inp = Some FinishTest \<and> q = n - 1 \<and>
        s' = (save_answer s q (selected_answer inp))\<lparr>test_completed := True\<rparr>)"
  unfolding navigation_def Let_def
  by (cases "clicked inp = Some Previous"; cases "clicked inp = Some Next";
      cases "clicked inp = Some FinishTest"; cases "0 < q"; cases "q < n - 1"; cases "q = n - 1")
     (simp_all, blast+)

lemma navigation_previous:
  "clicked inp = Some Previous \<Longrightarrow>
   session_after (navigation s inp q n) =
     (if 0 < q then stored ((save_answer s q (selected_answer inp))\<lparr>current_question := q - 1\<rparr>)
      else stored s)"
  by (simp add: navigation_def Let_def)

lemma navigation_next:
  "clicked inp = Some Next \<Longrightarrow>
   session_after (navigation s inp q n) =
     (if q < n - 1 then stored ((save_answer s q (selected_answer inp))\<lparr>current_question := q + 1\<rparr>)
      else stored s)"
  by (simp add: navigation_def Let_def)

lemma navigation_finish:
  "clicked inp = Some FinishTest \<Longrightarrow>
   session_after (navigation s inp q n) =
     (if q = n - 1 then stored ((save_answer s q (selected_answer inp))\<lparr>test_completed := True\<rparr>)
      else stored s)"
  by (simp add: navigation_def Let_def)

subsection \<open>The other screens\<close>

lemma show_test_creation_interface_effect:
  "\<exists>s'. session_after (show_test_creation_interface loads api s inp) = stored s' \<and>
        test_started s' = test_started s \<and> test_completed s' = test_completed s \<and>
        student_answers s' = student_answers s \<and> current_question s' = current_question s"
  by (auto simp: show_test_creation_interface_def Let_def split: prod.splits sum.splits)

lemma show_test_creation_interface_buttons:
  "buttons_rendered (show_test_creation_interface loads api s inp) = [CreateMyTest]"
  by (auto simp: show_test_creation_interface_def Let_def split: prod.splits sum.splits)

lemma show_test_start_interface_cases:
  "(session_after (show_test_start_interface s inp) = stored s \<and>
      \<not> rerun (show_test_start_interface s inp) \<and>
      (buttons_rendered (show_test_start_interface s inp) = [] \<or>
       clicked inp \<noteq> Some StartTest \<and> clicked inp \<noteq> Some CreateNewTest \<and>
       buttons_rendered (show_test_start_interface s inp) = [StartTest, CreateNewTest])) \<or>
   (\<exists>n. question_count s = Inr n \<and> py_truthy (test_data s) \<and>
      (clicked inp = Some StartTest \<and>
         show_test_start_interface s inp =
           rerun_with (stored (s\<lparr>test_started := True, current_question := 0\<rparr>)) [StartTest] \<or>
       clicked inp = Some CreateNewTest \<and>
         show_test_start_interface s inp = rerun_with deleted [StartTest, CreateNewTest]))"
proof (cases "py_truthy (test_data s)")
  case False
  then show ?thesis by (simp add: show_test_start_interface_def)
next
  case truthy: True
  show ?thesis
  proof (cases "py_getitem (test_data s) ''questions''")
    case (Inl e)
    with truthy show ?thesis by (simp add: show_test_start_interface_def)
  next
    case questions: (Inr questions)
    show ?thesis
    proof (cases "py_len questions")
      case (Inl e)
      with truthy questions show ?thesis by (simp add: show_test_start_interface_def)
    next
      case (Inr n)
      with questions have "question_count s = Inr n" by (simp add: question_count_def)
      with truthy questions Inr show ?thesis
        by (auto simp: show_test_start_interface_def)
    qed
  qed
qed

lemma show_test_start_interface_button:
  "buttons_rendered (show_test_start_interface s (inp\<lparr>clicked := None\<rparr>)) =
     (if \<exists>n. question_count s = Inr n then [StartTest, CreateNewTest] else [])"
proof (cases "py_getitem (test_data s) ''questions''")
  case (Inl e)
  then show ?thesis
    by (simp add: show_test_start_interface_def question_count_def)
next
  case questions: (Inr questions)
  then have truthy: "py_truthy (test_data s)" by (rule py_getitem_truthy)
  show ?thesis
  proof (cases "py_len questions")
    case (Inl e)
    with truthy questions show ?thesis
      by (simp add: show_test_start_interface_def question_count_def)
  next
    case (Inr n)
    with truthy questions show ?thesis
      by (simp add: show_test_start_interface_def question_count_def)
  qed
qed

lemma show_test_start_interface_reset:
  assumes "question_count s = Inr n" and "clicked inp = Some CreateNewTest"
  shows "show_test_start_interface s inp = rerun_with deleted [StartTest, CreateNewTest]"
proof -
  from assms(1) obtain questions where q: "py_getitem (test_data s) ''questions'' = Inr questions"
    and len: "py_len questions = Inr n"
    by (auto simp: question_count_Inr)
  from q have "py_truthy (test_data s)" by (rule py_getitem_truthy)
  with q len assms(2) show ?thesis by (simp add: show_test_start_interface_def)
qed

lemma show_results_interface_cases:
  "session_after (show_results_interface s inp) = stored s \<or>
   session_after (show_results_interface s inp) = deleted"
proof (cases "py_truthy (test_data s)")
  case False
  then show ?thesis by (simp add: show_results_interface_def)
next
  case truthy: True
  show ?thesis
  proof (cases "py_getitem (test_data s) ''questions''")
    case (Inl e)
    with truthy show ?thesis by (simp add: show_results_interface_def)
  next
    case questions: (Inr questions)
    show ?thesis
    proof (cases "calculate_score questions (student_answers s)")
      case (Inl e)
      with truthy questions show ?thesis by (simp add: show_results_interface_def)
    next
      case score: (Inr score)
      obtain shown err where d: "display_results score = (shown, err)"
        by (cases "display_results score")
      with truthy questions score show ?thesis
        by (cases err) (simp_all add: show_results_interface_def)
    qed
  qed
qed

lemma show_results_interface_button:
  "buttons_rendered (show_results_interface s inp) =
     (if results_render s then [CreateAnotherTest] else [])"
proof (cases "py_getitem (test_data s) ''questions''")
  case (Inl e)
  then show ?thesis
    by (simp add: show_results_interface_def results_render_def)
next
  case questions: (Inr questions)
  then have truthy: "py_truthy (test_data s)" by (rule py_getitem_truthy)
  show ?thesis
  proof (cases "calculate_score questions (student_answers s)")
    case (Inl e)
    with truthy questions show ?thesis
      by (simp add: show_results_interface_def results_render_def)
  next
    case score: (Inr score)
    obtain shown err where d: "display_results score = (shown, err)"
      by (cases "display_results score")
    with truthy questions score show ?thesis
      by (cases err) (simp_all add: show_results_interface_def results_render_def)
  qed
qed

lemma show_results_interface_reset:
  assumes "results_render s" and "clicked inp = Some CreateAnotherTest"
  shows "session_after (show_results_interface s inp) = deleted \<and>
         rerun (show_results_interface s inp)"
proof -
  from assms(1) obtain questions score where q: "py_getitem (test_data s) ''questions'' = Inr questions"
    and c: "calculate_score questions (student_answers s) = Inr score"
    and d: "snd (display_results score) = None"
    by (auto simp: results_render_def split: sum.splits)
  from q have truthy: "py_truthy (test_data s)" by (rule py_getitem_truthy)
  obtain shown where "display_results score = (shown, None)"
    using d by (cases "display_results score") simp
  with truthy q c assms(2) show ?thesis
    by (simp add: show_results_interface_def)
qed

text \<open>The report is displayed without an exception exactly when all options are dicts.\<close>

lemma display_results_loop_iff:
  "snd (display_results_loop rs) = None \<longleftrightarrow> list_all (\<lambda>r. is_dict (options r)) rs"
proof (induction rs)
  case Nil
  show ?case by simp
next
  case (Cons r rs)
  show ?case
  proof (cases "options r")
    case (JObj kvs)
    with Cons show ?thesis by (cases "display_results_loop rs") (simp add: Let_def)
  qed (simp_all add: Let_def)
qed

lemma displayable_scorable: "displayable q \<Longrightarrow> scorable q"
  by (cases q) simp_all

lemma displayable_options: "displayable q \<Longrightarrow> \<exists>v. py_getitem q ''options'' = Inr v \<and> is_dict v"
  by (cases q) (auto split: option.splits)

text \<open>
  A stored test whose questions are a non-empty list of records that can be scored and
  displayed has a question count, and its results page comes as far as the button.
\<close>

lemma displayable_renders:
  assumes "py_getitem (test_data s) ''questions'' = Inr (JArr qs)"
    and "qs \<noteq> []" and "list_all displayable qs"
  shows "(\<exists>n. question_count s = Inr n) \<and> results_render s"
proof
  show "\<exists>n. question_count s = Inr n"
    using assms(1) by (simp add: question_count_def)
next
  from assms(3) have scorable: "list_all scorable qs"
    by (auto simp: list_all_iff displayable_scorable)
  from calculate_score_scorable[OF assms(2) scorable, of "student_answers s"]
  obtain rs score where score: "calculate_score (JArr qs) (student_answers s) = Inr score"
    and rs: "results score = rs" and len: "length rs = length qs"
    and each: "\<forall>j<length qs. score_question j (qs ! j) (student_answers s) = Inr (rs ! j)"
    by auto
  have "list_all (\<lambda>r. is_dict (options r)) rs"
    unfolding list_all_length
  proof (intro allI impI)
    fix j assume "j < length rs"
    with len have j: "j < length qs" by simp
    with assms(3) have d: "displayable (qs ! j)" by (simp add: list_all_length)
    from displayable_options[OF d] obtain v where v: "py_getitem (qs ! j) ''options'' = Inr v"
      "is_dict v" by blast
    from score_question_scorable[OF displayable_scorable[OF d], of j "student_answers s"] each j v
    show "is_dict (options (rs ! j))" by auto
  qed
  then have "snd (display_results score) = None"
    using rs by (simp add: display_results_def display_results_loop_iff)
  with assms(1) score show "results_render s"
    by (simp add: results_render_def)
qed

text \<open>
  Conversely, the results page comes as far as the button only for such a test: the scorer
  returns on non-empty lists of records with its three fields only, and the display asks
  every record for the items of its options.
\<close>

lemma results_render_iff:
  "results_render s \<longleftrightarrow>
     (\<exists>qs. py_getitem (test_data s) ''questions'' = Inr (JArr qs) \<and> qs \<noteq> [] \<and>
           list_all displayable qs)"
proof
  assume "results_render s"
  then obtain questions score where q: "py_getitem (test_data s) ''questions'' = Inr questions"
    and c: "calculate_score questions (student_answers s) = Inr score"
    and d: "snd (display_results score) = None"
    by (auto simp: results_render_def split: sum.splits)
  from calculate_score_needs_list[OF c] obtain qs where qs: "questions = JArr qs" by blast
  from calculate_score_needs_fields[OF c[unfolded qs]] have ne: "qs \<noteq> []"
    and fields: "list_all scorable qs" by simp_all
  from calculate_score_scorable[OF ne fields, of "student_answers s"] c qs
  have len: "length (results score) = length qs"
    and each: "\<forall>j<length qs. score_question j (qs ! j) (student_answers s) = Inr (results score ! j)"
    by auto
  from d have dicts: "list_all (\<lambda>r. is_dict (options r)) (results score)"
    by (simp add: display_results_def display_results_loop_iff)
  have "list_all displayable qs"
    unfolding list_all_length
  proof (intro allI impI)
    fix j assume j: "j < length qs"
    with fields have sc: "scorable (qs ! j)" by (simp add: list_all_length)
    from dicts j len have "is_dict (options (results score ! j))" by (simp add: list_all_length)
    moreover from score_question_scorable[OF sc, of j "student_answers s"] each j
    have "py_getitem (qs ! j) ''options'' = Inr (options (results score ! j))" by auto
    ultimately show "displayable (qs ! j)"
      using sc by (cases "qs ! j") (auto split: option.splits)
  qed
  with q qs ne show "\<exists>qs. py_getitem (test_data s) ''questions'' = Inr (JArr qs) \<and> qs \<noteq> [] \<and>
           list_all displayable qs" by blast
next
  assume "\<exists>qs. py_getitem (test_data s) ''questions'' = Inr (JArr qs) \<and> qs \<noteq> [] \<and>
           list_all displayable qs"
  then show "results_render s" using displayable_renders by blast
qed

subsection \<open>An invariant of the session\<close>

lemma session_inv_iff:
  "session_inv s \<longleftrightarrow>
     (test_started s \<longrightarrow>
        test_created s \<and>
        (\<exists>n. question_count s = Inr n \<and>
             (0 < n \<longrightarrow> 0 \<le> current_question s \<and> current_question s < int n)))"
  by (cases "question_count s") (auto simp: session_inv_def)

lemma session_inv_deleted: "session_inv (initialise deleted)"
  by (simp add: session_inv_iff initialise_deleted)

lemma session_inv_creation:
  assumes "session_inv s" and "\<not> test_created s"
  shows "session_inv (initialise (session_after (show_test_creation_interface loads api s inp)))"
proof -
  from assms have "\<not> test_started s" by (auto simp: session_inv_iff)
  with show_test_creation_interface_effect[of loads api s inp] show ?thesis
    by (auto simp: session_inv_iff)
qed

lemma session_inv_start:
  assumes "session_inv s" and "test_created s" and "\<not> test_started s"
  shows "session_inv (initialise (session_after (show_test_start_interface s inp)))"
  using show_test_start_interface_cases[of s inp] assms
  by (auto simp: session_inv_iff initialise_deleted question_count_def)

lemma session_inv_test:
  assumes "session_inv s" and "test_created s" and "test_started s"
  shows "session_inv (initialise (session_after (show_test_interface s inp)))"
proof -
  from show_test_interface_cases[of s inp]
  consider "session_after (show_test_interface s inp) = stored s"
    | n where "question_count s = Inr n" "0 < n" "- 1 \<le> current_question s"
        "current_question s < int n"
        "show_test_interface s inp = navigation s inp (current_question s) (int n)"
    by blast
  then show ?thesis
  proof cases
    case 1
    with assms(1) show ?thesis by simp
  next
    case 2
    from assms 2(1,2) have lower: "0 \<le> current_question s"
      by (auto simp: session_inv_iff)
    from navigation_effect[of s inp "current_question s" "int n"]
    obtain s' where after: "session_after (navigation s inp (current_question s) (int n)) = stored s'"
      and eff: "s' = s \<or>
        clicked inp = Some Previous \<and> 0 < current_question s \<and>
          s' = (save_answer s (current_question s) (selected_answer inp))
                 \<lparr>current_question := current_question s - 1\<rparr> \<or>
        clicked inp = Some Next \<and> current_question s < int n - 1 \<and>
          s' = (save_answer s (current_question s) (selected_answer inp))
                 \<lparr>current_question := current_question s + 1\<rparr> \<or>
        clicked inp = Some FinishTest \<and> current_question s = int n - 1 \<and>
          s' = (save_answer s (current_question s) (selected_answer inp))
                 \<lparr>test_completed := True\<rparr>"
      by blast
    have "session_inv s'"
      using eff assms 2(1,2,4) lower
      by (auto simp: session_inv_iff question_count_def)
    with after 2(5) show ?thesis by simp
  qed
qed

lemma session_inv_results:
  assumes "session_inv s"
  shows "session_inv (initialise (session_after (show_results_interface s inp)))"
  using show_results_interface_cases[of s inp] assms
  by (auto simp: session_inv_deleted)

lemma session_inv_main:
  assumes "session_inv (initialise st)"
  shows "session_inv (initialise (session_after (main loads api st inp)))"
  using assms session_inv_creation session_inv_start session_inv_test session_inv_results
  by (simp add: main_def Let_def)

lemma reachable_session_inv: "reachable st \<Longrightarrow> session_inv (initialise st)"
  by (induction rule: reachable.induct) (simp_all add: session_inv_deleted session_inv_main)

section \<open>Creation screen: claims\<close>

text \<open>
  Claim C7. On the creation screen, a press of the create button with an empty name, an empty
  API key or no topic selected is rejected by the first check that fails: one message is
  shown, no request goes to the generation service, the run ends without a rerun, and every
  field of the session is what it was.
\<close>

theorem create_rejected_before_generation:
  assumes "stage_of (initialise st) = Creating"
    and "clicked inp = Some CreateMyTest"
    and "name_field inp = [] \<or> api_key_field inp = [] \<or> selected_topics inp = []"
  shows "initialise (session_after (main loads api st inp)) = initialise st \<and>
         api_calls (main loads api st inp) = 0 \<and>
         errors_shown (main loads api st inp) =
           [if name_field inp = [] then ''Please enter your name''
            else if api_key_field inp = [] then ''Please provide your OpenAI API key''
            else ''Please select at least one topic''] \<and>
         \<not> rerun (main loads api st inp)"
  using assms
  by (auto simp: main_stage show_test_creation_interface_def)

theorem create_rejected_before_generation_witness:
  "stage_of (initialise deleted) = Creating \<and>
   clicked (sample_inputs\<lparr>selected_topics := [], clicked := Some CreateMyTest\<rparr>) = Some CreateMyTest \<and>
   selected_topics (sample_inputs\<lparr>selected_topics := [], clicked := Some CreateMyTest\<rparr>) = [] \<and>
   initialise (session_after (main sample_loads (Inr (Some sample_payload)) deleted
       (sample_inputs\<lparr>selected_topics := [], clicked := Some CreateMyTest\<rparr>))) = initialise deleted \<and>
   api_calls (main sample_loads (Inr (Some sample_payload)) deleted
       (sample_inputs\<lparr>selected_topics := [], clicked := Some CreateMyTest\<rparr>)) = 0 \<and>
   errors_shown (main sample_loads (Inr (Some sample_payload)) deleted
       (sample_inputs\<lparr>selected_topics := [], clicked := Some CreateMyTest\<rparr>)) =
     [''Please select at least one topic'']"
proof -
  have a: "stage_of (initialise deleted) = Creating"
    by (simp add: initialise_deleted stage_of_def)
  have b: "clicked (sample_inputs\<lparr>selected_topics := [], clicked := Some CreateMyTest\<rparr>)
             = Some CreateMyTest"
    by simp
  have c: "selected_topics (sample_inputs\<lparr>selected_topics := [], clicked := Some CreateMyTest\<rparr>) = []"
    by simp
  from c have d: "name_field (sample_inputs\<lparr>selected_topics := [], clicked := Some CreateMyTest\<rparr>) = []
      \<or> api_key_field (sample_inputs\<lparr>selected_topics := [], clicked := Some CreateMyTest\<rparr>) = []
      \<or> selected_topics (sample_inputs\<lparr>selected_topics := [], clicked := Some CreateMyTest\<rparr>) = []"
    by simp
  from create_rejected_before_generation
         [OF a b d, of sample_loads "Inr (Some sample_payload)"] a b c
  show ?thesis by (simp add: sample_inputs_def)
qed

text \<open>
  Claim C2, as stated, fails: the handler stores the student name in the session before it
  sends the request, so after a failed generation the session holds the submitted name.
\<close>

theorem failed_generation_stores_name_counterexample:
  "student_name (initialise deleted) = [] \<and>
   student_name
     (initialise (session_after
        (main sample_loads (Inl ''Connection error.'') deleted
           (sample_inputs\<lparr>clicked := Some CreateMyTest\<rparr>)))) = ''Asha'' \<and>
   errors_shown
     (main sample_loads (Inl ''Connection error.'') deleted
        (sample_inputs\<lparr>clicked := Some CreateMyTest\<rparr>)) =
     [''Error generating questions: Connection error.'',
      ''Failed to generate questions. Please check your API key and try again.''] \<and>
   stage_of
     (initialise (session_after
        (main sample_loads (Inl ''Connection error.'') deleted
           (sample_inputs\<lparr>clicked := Some CreateMyTest\<rparr>)))) = Creating"
  by (simp add: main_stage initialise_deleted stage_of_def show_test_creation_interface_def
                sample_inputs_def generate_mcqs_def)

text \<open>
  Claim C2, amended. A creation attempt that passes the three input checks and then fails,
  because the generation service raised or returned nothing or an empty text, or because the
  parser returned \<^verbatim>\<open>None\<close> or an empty object, sends one request, shows a message, ends
  without a rerun, and changes exactly one field of the session: the student name, which is
  now the submitted name. The stage remains Creating; no question set is recorded, and the
  answer map, the index and the flags are what they were.
\<close>

theorem failed_creation_keeps_creating:
  assumes "stage_of (initialise st) = Creating"
    and "clicked inp = Some CreateMyTest"
    and "name_field inp \<noteq> []" and "api_key_field inp \<noteq> []" and "selected_topics inp \<noteq> []"
    and "fst (generate_mcqs api) = None \<or> fst (generate_mcqs api) = Some [] \<or>
         (\<exists>response mcq_data errs. fst (generate_mcqs api) = Some response \<and>
            parse_mcq_response loads response = Inr (mcq_data, errs) \<and> \<not> py_truthy mcq_data)"
  shows "initialise (session_after (main loads api st inp)) =
           (initialise st)\<lparr>student_name := name_field inp\<rparr> \<and>
         stage_of (initialise (session_after (main loads api st inp))) = Creating \<and>
         errors_shown (main loads api st inp) \<noteq> [] \<and>
         api_calls (main loads api st inp) = 1 \<and>
         \<not> rerun (main loads api st inp)"
proof -
  obtain response gen_errs where g: "generate_mcqs api = (response, gen_errs)"
    by (cases "generate_mcqs api")
  show ?thesis
  proof (cases "response \<noteq> None \<and> response \<noteq> Some []")
    case False
    with assms(1-5) g show ?thesis
      by (auto simp: main_stage show_test_creation_interface_def stage_of_def)
  next
    case True
    then obtain r where r: "response = Some r" "r \<noteq> []" by auto
    with assms(6) g obtain mcq_data parse_errs where
      p: "parse_mcq_response loads r = Inr (mcq_data, parse_errs)" and "\<not> py_truthy mcq_data"
      by auto
    with assms(1-5) g r show ?thesis
      by (auto simp: main_stage show_test_creation_interface_def stage_of_def)
  qed
qed

theorem failed_creation_keeps_creating_witness:
  "stage_of (initialise deleted) = Creating \<and>
   fst (generate_mcqs (Inr (Some ''Sorry, I cannot help.''))) = Some ''Sorry, I cannot help.'' \<and>
   parse_mcq_response sample_loads ''Sorry, I cannot help.'' =
     Inr (JNull, [''Could not find valid JSON in the response'']) \<and>
   \<not> py_truthy JNull \<and>
   initialise (session_after
     (main sample_loads (Inr (Some ''Sorry, I cannot help.'')) deleted
        (sample_inputs\<lparr>clicked := Some CreateMyTest\<rparr>))) =
     (initialise deleted)\<lparr>student_name := ''Asha''\<rparr> \<and>
   errors_shown
     (main sample_loads (Inr (Some ''Sorry, I cannot help.'')) deleted
        (sample_inputs\<lparr>clicked := Some CreateMyTest\<rparr>)) =
     [''Could not find valid JSON in the response'', ''Failed to create test. Please try again.'']"
proof -
  have a: "stage_of (initialise deleted) = Creating"
    by (simp add: initialise_deleted stage_of_def)
  have g: "fst (generate_mcqs (Inr (Some ''Sorry, I cannot help.''))) = Some ''Sorry, I cannot help.''"
    by (simp add: generate_mcqs_def)
  have p: "parse_mcq_response sample_loads ''Sorry, I cannot help.'' =
             Inr (JNull, [''Could not find valid JSON in the response''])"
    by (simp add: parse_mcq_response_def)
  have e: "errors_shown
     (main sample_loads (Inr (Some ''Sorry, I cannot help.'')) deleted
        (sample_inputs\<lparr>clicked := Some CreateMyTest\<rparr>)) =
     [''Could not find valid JSON in the response'', ''Failed to create test. Please try again.'']"
    by (simp add: main_stage initialise_deleted stage_of_def show_test_creation_interface_def
                  sample_inputs_def generate_mcqs_def parse_mcq_response_def)
  from g p have f: "fst (generate_mcqs (Inr (Some ''Sorry, I cannot help.''))) = None \<or>
      fst (generate_mcqs (Inr (Some ''Sorry, I cannot help.''))) = Some [] \<or>
      (\<exists>response mcq_data errs.
         fst (generate_mcqs (Inr (Some ''Sorry, I cannot help.''))) = Some response \<and>
         parse_mcq_response sample_loads response = Inr (mcq_data, errs) \<and> \<not> py_truthy mcq_data)"
    by simp
  from failed_creation_keeps_creating
         [OF a, of "sample_inputs\<lparr>clicked := Some CreateMyTest\<rparr>"
             "Inr (Some ''Sorry, I cannot help.'')" sample_loads, OF _ _ _ _ f]
  have "initialise (session_after
     (main sample_loads (Inr (Some ''Sorry, I cannot help.'')) deleted
        (sample_inputs\<lparr>clicked := Some CreateMyTest\<rparr>))) =
     (initialise deleted)\<lparr>student_name := ''Asha''\<rparr>"
    by (simp add: sample_inputs_def)
  with a g p e show ?thesis by simp
qed

section \<open>Reset: claims\<close>

text \<open>
  Claim C3, as stated, fails: the question screen has the buttons Previous, Next and Finish
  only, and the creation screen the create button only. In a session on the first of two
  questions the page shows the single button Next, and a run with a press of either reset
  button leaves the session as it is.
\<close>

theorem no_reset_in_progress_counterexample:
  "stage_of (initialise (stored sample_in_progress)) = InProgress \<and>
   buttons_rendered (main sample_loads (Inl []) (stored sample_in_progress) sample_inputs) = [Next] \<and>
   session_after
     (main sample_loads (Inl []) (stored sample_in_progress)
        (sample_inputs\<lparr>clicked := Some CreateNewTest\<rparr>)) = stored sample_in_progress \<and>
   session_after
     (main sample_loads (Inl []) (stored sample_in_progress)
        (sample_inputs\<lparr>clicked := Some CreateAnotherTest\<rparr>)) = stored sample_in_progress \<and>
   buttons_rendered (main sample_loads (Inl []) deleted sample_inputs) = [CreateMyTest]"
  by (simp add: main_stage stage_of_def initialise_deleted show_test_creation_interface_def
                show_test_interface_def navigation_def py_nth_def Let_def
                sample_in_progress_def sample_test_def sample_questions_def sample_inputs_def)

text \<open>
  Claim C3, amended. With no button pressed, the page offers Create New Test exactly when
  the stage is Ready and the stored test data has a \<^verbatim>\<open>questions\<close> entry with a length, and
  Create Another Test exactly when the stage is Completed and that entry is a non-empty list
  of records that have \<^verbatim>\<open>correct_answer\<close>, \<^verbatim>\<open>question_text\<close> and a dictionary as
  \<^verbatim>\<open>options\<close> (otherwise scoring or display raises before the button is drawn). The
  Creating and InProgress stages offer no reset. Pressing the button where it is offered
  deletes every key of the session and reruns the script, which then starts from the initial
  values: stage Creating, no question set, an empty answer map, index 0 and an empty student
  name.
\<close>

theorem reset_offered_on_ready_and_results:
  "(CreateNewTest \<in> set (buttons_rendered (main loads api st (inp\<lparr>clicked := None\<rparr>))) \<longleftrightarrow>
      stage_of (initialise st) = Ready \<and> (\<exists>n. question_count (initialise st) = Inr n)) \<and>
   (CreateAnotherTest \<in> set (buttons_rendered (main loads api st (inp\<lparr>clicked := None\<rparr>))) \<longleftrightarrow>
      stage_of (initialise st) = Completed \<and>
      (\<exists>qs. py_getitem (test_data (initialise st)) ''questions'' = Inr (JArr qs) \<and> qs \<noteq> [] \<and>
            list_all displayable qs)) \<and>
   (stage_of (initialise st) = Ready \<and> (\<exists>n. question_count (initialise st) = Inr n) \<longrightarrow>
      session_after (main loads api st (inp\<lparr>clicked := Some CreateNewTest\<rparr>)) = deleted \<and>
      rerun (main loads api st (inp\<lparr>clicked := Some CreateNewTest\<rparr>))) \<and>
   (stage_of (initialise st) = Completed \<and>
    (\<exists>qs. py_getitem (test_data (initialise st)) ''questions'' = Inr (JArr qs) \<and> qs \<noteq> [] \<and>
          list_all displayable qs) \<longrightarrow>
      session_after (main loads api st (inp\<lparr>clicked := Some CreateAnotherTest\<rparr>)) = deleted \<and>
      rerun (main loads api st (inp\<lparr>clicked := Some CreateAnotherTest\<rparr>))) \<and>
   initialise deleted =
     \<lparr> test_created = False, test_data = JNull, test_started = False,
       test_completed = False, student_answers = Map.empty, current_question = 0,
       student_name = [] \<rparr> \<and>
   stage_of (initialise deleted) = Creating"
  (is "?new \<and> ?another \<and> ?press_new \<and> ?press_another \<and> ?fresh")
proof -
  let ?s = "initialise st"
  let ?idle = "inp\<lparr>clicked := None\<rparr>"
  have none: "CreateNewTest \<notin> set (buttons_rendered (show_test_interface ?s ?idle)) \<and>
              CreateAnotherTest \<notin> set (buttons_rendered (show_test_interface ?s ?idle))"
  proof -
    from show_test_interface_cases[of ?s ?idle]
    consider "buttons_rendered (show_test_interface ?s ?idle) = []"
      | n where "show_test_interface ?s ?idle = navigation ?s ?idle (current_question ?s) (int n)"
      by blast
    then show ?thesis
    proof cases
      case 1
      then show ?thesis by simp
    next
      case 2
      with navigation_buttons[of ?s ?idle "current_question ?s" "int n"]
      show ?thesis by auto
    qed
  qed
  have new: ?new
  proof (cases "stage_of ?s")
    case Creating
    then show ?thesis by (simp add: main_stage show_test_creation_interface_buttons)
  next
    case Ready
    then show ?thesis by (simp add: main_stage show_test_start_interface_button)
  next
    case InProgress
    with none show ?thesis by (simp add: main_stage)
  next
    case Completed
    then show ?thesis by (simp add: main_stage show_results_interface_button)
  qed
  have another: ?another
    unfolding results_render_iff[symmetric]
  proof (cases "stage_of ?s")
    case Creating
    then show "CreateAnotherTest \<in> set (buttons_rendered (main loads api st ?idle)) \<longleftrightarrow>
               stage_of ?s = Completed \<and> results_render ?s"
      by (simp add: main_stage show_test_creation_interface_buttons)
  next
    case Ready
    then show "CreateAnotherTest \<in> set (buttons_rendered (main loads api st ?idle)) \<longleftrightarrow>
               stage_of ?s = Completed \<and> results_render ?s"
      by (simp add: main_stage show_test_start_interface_button)
  next
    case InProgress
    with none show "CreateAnotherTest \<in> set (buttons_rendered (main loads api st ?idle)) \<longleftrightarrow>
               stage_of ?s = Completed \<and> results_render ?s"
      by (simp add: main_stage)
  next
    case Completed
    then show "CreateAnotherTest \<in> set (buttons_rendered (main loads api st ?idle)) \<longleftrightarrow>
               stage_of ?s = Completed \<and> results_render ?s"
      by (simp add: main_stage show_results_interface_button)
  qed
  have press_new: ?press_new
  proof
    assume ready: "stage_of ?s = Ready \<and> (\<exists>n. question_count ?s = Inr n)"
    then obtain n where "question_count ?s = Inr n" by blast
    from show_test_start_interface_reset[OF this, of "inp\<lparr>clicked := Some CreateNewTest\<rparr>"] ready
    show "session_after (main loads api st (inp\<lparr>clicked := Some CreateNewTest\<rparr>)) = deleted \<and>
          rerun (main loads api st (inp\<lparr>clicked := Some CreateNewTest\<rparr>))"
      by (simp add: main_stage)
  qed
  have press_another: ?press_another
    unfolding results_render_iff[symmetric]
  proof
    assume completed: "stage_of ?s = Completed \<and> results_render ?s"
    with show_results_interface_reset[of ?s "inp\<lparr>clicked := Some CreateAnotherTest\<rparr>"]
    show "session_after (main loads api st (inp\<lparr>clicked := Some CreateAnotherTest\<rparr>)) = deleted \<and>
          rerun (main loads api st (inp\<lparr>clicked := Some CreateAnotherTest\<rparr>))"
      by (simp add: main_stage)
  qed
  have fresh: ?fresh
    by (simp add: initialise_deleted stage_of_def)
  from new another press_new press_another fresh show ?thesis by blast
qed

theorem reset_offered_on_ready_and_results_witness:
  "stage_of (initialise (stored (sample_in_progress\<lparr>test_started := False\<rparr>))) = Ready \<and>
   question_count (initialise (stored (sample_in_progress\<lparr>test_started := False\<rparr>))) = Inr 2 \<and>
   CreateNewTest \<in> set (buttons_rendered
      (main sample_loads (Inl []) (stored (sample_in_progress\<lparr>test_started := False\<rparr>))
         (sample_inputs\<lparr>clicked := None\<rparr>))) \<and>
   session_after
     (main sample_loads (Inl []) (stored (sample_in_progress\<lparr>test_started := False\<rparr>))
        (sample_inputs\<lparr>clicked := Some CreateNewTest\<rparr>)) = deleted \<and>
   stage_of (initialise (stored (sample_in_progress\<lparr>test_completed := True\<rparr>))) = Completed \<and>
   py_getitem (test_data (initialise (stored (sample_in_progress\<lparr>test_completed := True\<rparr>))))
     ''questions'' = Inr (JArr sample_questions) \<and>
   sample_questions \<noteq> [] \<and> list_all displayable sample_questions \<and>
   CreateAnotherTest \<in> set (buttons_rendered
      (main sample_loads (Inl []) (stored (sample_in_progress\<lparr>test_completed := True\<rparr>))
         (sample_inputs\<lparr>clicked := None\<rparr>))) \<and>
   session_after
     (main sample_loads (Inl []) (stored (sample_in_progress\<lparr>test_completed := True\<rparr>))
        (sample_inputs\<lparr>clicked := Some CreateAnotherTest\<rparr>)) = deleted \<and>
   stage_of (initialise (stored (sample_in_progress\<lparr>test_data := JObj [(''quiz'', JInt 3)],
       test_started := False\<rparr>))) = Ready \<and>
   question_count (initialise (stored (sample_in_progress\<lparr>test_data := JObj [(''quiz'', JInt 3)],
       test_started := False\<rparr>))) = Inl (KeyError ''questions'') \<and>
   CreateNewTest \<notin> set (buttons_rendered
      (main sample_loads (Inl [])
         (stored (sample_in_progress\<lparr>test_data := JObj [(''quiz'', JInt 3)], test_started := False\<rparr>))
         (sample_inputs\<lparr>clicked := None\<rparr>))) \<and>
   stage_of (initialise deleted) = Creating"
proof -
  let ?ready = "stored (sample_in_progress\<lparr>test_started := False\<rparr>)"
  let ?completed = "stored (sample_in_progress\<lparr>test_completed := True\<rparr>)"
  let ?other = "stored (sample_in_progress\<lparr>test_data := JObj [(''quiz'', JInt 3)],
                  test_started := False\<rparr>)"
  have ready: "stage_of (initialise ?ready) = Ready"
    by (simp add: stage_of_def sample_in_progress_def)
  have completed: "stage_of (initialise ?completed) = Completed"
    by (simp add: stage_of_def sample_in_progress_def)
  have other: "stage_of (initialise ?other) = Ready"
    by (simp add: stage_of_def sample_in_progress_def)
  have records:
    "py_getitem (test_data (initialise ?completed)) ''questions'' = Inr (JArr sample_questions)"
    by (simp add: sample_in_progress_def sample_test_def)
  have questions: "sample_questions \<noteq> [] \<and> list_all displayable sample_questions"
    by (simp add: sample_questions_def)
  have count: "question_count (initialise ?ready) = Inr 2"
    by (simp add: question_count_def sample_in_progress_def sample_test_def sample_questions_def)
  have no_count: "question_count (initialise ?other) = Inl (KeyError ''questions'')"
    by (simp add: question_count_def sample_in_progress_def)
  from reset_offered_on_ready_and_results [of sample_loads "Inl []" ?ready sample_inputs]
       reset_offered_on_ready_and_results [of sample_loads "Inl []" ?completed sample_inputs]
       reset_offered_on_ready_and_results [of sample_loads "Inl []" ?other sample_inputs]
       ready completed other records questions count no_count
  show ?thesis by simp
qed

section \<open>Question screen: claims\<close>

text \<open>
  Claim C10. A run of the script in the InProgress stage, whatever button is pressed, leaves
  the stored answer of every key other than that of the question on screen as it was, hence
  (keys of distinct question numbers being distinct) the stored answer of every other
  question; the entry of the question on screen is either left as it was or set to the
  selected label, which is then not empty; and no key leaves the answer map.
\<close>

theorem navigation_keeps_answers:
  assumes "stage_of (initialise st) = InProgress"
  shows "(\<forall>k. k \<noteq> answer_key (current_question (initialise st) + 1) \<longrightarrow>
            student_answers (initialise (session_after (main loads api st inp))) k =
            student_answers (initialise st) k) \<and>
         (\<forall>j. j \<noteq> current_question (initialise st) + 1 \<longrightarrow>
            student_answers (initialise (session_after (main loads api st inp))) (answer_key j) =
            student_answers (initialise st) (answer_key j)) \<and>
         (student_answers (initialise (session_after (main loads api st inp)))
              (answer_key (current_question (initialise st) + 1)) =
            student_answers (initialise st) (answer_key (current_question (initialise st) + 1)) \<or>
          selected_answer inp \<noteq> None \<and> selected_answer inp \<noteq> Some [] \<and>
          student_answers (initialise (session_after (main loads api st inp)))
              (answer_key (current_question (initialise st) + 1)) = selected_answer inp) \<and>
         dom (student_answers (initialise st)) \<subseteq>
           dom (student_answers (initialise (session_after (main loads api st inp))))"
proof -
  let ?s = "initialise st"
  let ?q = "current_question ?s"
  let ?saved = "save_answer ?s ?q (selected_answer inp)"
  have main: "main loads api st inp = show_test_interface ?s inp"
    using assms by (simp add: main_stage)
  have "student_answers (initialise (session_after (show_test_interface ?s inp))) = student_answers ?s
        \<or> student_answers (initialise (session_after (show_test_interface ?s inp))) = student_answers ?saved"
  proof -
    from show_test_interface_cases[of ?s inp]
    consider "session_after (show_test_interface ?s inp) = stored ?s"
      | n where "show_test_interface ?s inp = navigation ?s inp ?q (int n)"
      by blast
    then show ?thesis
    proof cases
      case 1
      then show ?thesis by simp
    next
      case 2
      with navigation_effect[of ?s inp ?q "int n"] show ?thesis by auto
    qed
  qed
  then have answers: "student_answers (initialise (session_after (main loads api st inp))) = student_answers ?s
      \<or> (\<exists>a. selected_answer inp = Some a \<and> a \<noteq> [] \<and>
            student_answers (initialise (session_after (main loads api st inp)))
              = (student_answers ?s)(answer_key (?q + 1) \<mapsto> a))"
    unfolding main by (auto simp: save_answer_answers split: option.splits if_splits)
  then show ?thesis
    by (auto simp: answer_key_inj)
qed

theorem navigation_keeps_answers_witness:
  "stage_of (initialise (stored (sample_in_progress\<lparr>student_answers := map_of [(''q_2'', ''B'')]\<rparr>)))
     = InProgress \<and>
   student_answers
     (initialise (session_after
        (main sample_loads (Inl [])
           (stored (sample_in_progress\<lparr>student_answers := map_of [(''q_2'', ''B'')]\<rparr>))
           (sample_inputs\<lparr>clicked := Some Next\<rparr>)))) ''q_2'' = Some ''B'' \<and>
   student_answers
     (initialise (session_after
        (main sample_loads (Inl [])
           (stored (sample_in_progress\<lparr>student_answers := map_of [(''q_2'', ''B'')]\<rparr>))
           (sample_inputs\<lparr>clicked := Some Next\<rparr>)))) ''q_1'' = Some ''A''"
proof -
  let ?st = "stored (sample_in_progress\<lparr>student_answers := map_of [(''q_2'', ''B'')]\<rparr>)"
  have stage: "stage_of (initialise ?st) = InProgress"
    by (simp add: stage_of_def sample_in_progress_def)
  have cur: "answer_key (current_question (initialise ?st) + 1) = ''q_1''"
    by (simp add: sample_in_progress_def answer_key_1)
  have written: "student_answers
     (initialise (session_after
        (main sample_loads (Inl []) ?st (sample_inputs\<lparr>clicked := Some Next\<rparr>)))) ''q_1'' = Some ''A''"
    by (simp add: main_stage stage_of_def show_test_interface_def navigation_def py_nth_def
                  Let_def save_answer_def answer_key_1 sample_in_progress_def sample_test_def
                  sample_questions_def sample_inputs_def)
  from navigation_keeps_answers
         [OF stage, of sample_loads "Inl []" "sample_inputs\<lparr>clicked := Some Next\<rparr>"]
  have "\<forall>k. k \<noteq> answer_key (current_question (initialise ?st) + 1) \<longrightarrow>
            student_answers (initialise (session_after
              (main sample_loads (Inl []) ?st (sample_inputs\<lparr>clicked := Some Next\<rparr>)))) k =
            student_answers (initialise ?st) k"
    by blast
  then have "student_answers (initialise (session_after
              (main sample_loads (Inl []) ?st (sample_inputs\<lparr>clicked := Some Next\<rparr>)))) ''q_2'' =
            student_answers (initialise ?st) ''q_2''"
    unfolding cur by simp
  then have kept: "student_answers (initialise (session_after
              (main sample_loads (Inl []) ?st (sample_inputs\<lparr>clicked := Some Next\<rparr>)))) ''q_2'' =
            Some ''B''"
    by (simp add: sample_in_progress_def)
  from stage kept written show ?thesis by simp
qed

text \<open>
  Claim C4, as stated, fails for an empty question list. The generation service may answer
  with an object whose \<^verbatim>\<open>questions\<close> array is empty; the object itself is not empty, so it is
  stored, the start screen reports a test of 0 questions, and the start button leads to the
  InProgress stage with index 0, which is not below the length 0. The question screen then
  stops with a division by zero in the progress bar.
\<close>

theorem empty_question_set_counterexample:
  "reachable empty_test_started \<and>
   stage_of (initialise empty_test_started) = InProgress \<and>
   question_count (initialise empty_test_started) = Inr 0 \<and>
   current_question (initialise empty_test_started) = 0 \<and>
   uncaught (main sample_loads (Inl []) empty_test_started sample_inputs) = Some ZeroDivisionError"
proof -
  have r: "reachable empty_test_started"
    unfolding empty_test_started_def empty_test_created_def
    by (intro reachable.run reachable.fresh)
  have created: "empty_test_created =
      stored \<lparr> test_created = True, test_data = JObj [(''questions'', JArr [])],
               test_started = False, test_completed = False, student_answers = Map.empty,
               current_question = 0, student_name = ''Asha'' \<rparr>"
    by (simp add: empty_test_created_def main_stage initialise_deleted stage_of_def
                  show_test_creation_interface_def generate_mcqs_def parse_mcq_response_def
                  sample_loads_def sample_payload_def empty_payload_def sample_inputs_def)
  have started: "empty_test_started =
      stored \<lparr> test_created = True, test_data = JObj [(''questions'', JArr [])],
               test_started = True, test_completed = False, student_answers = Map.empty,
               current_question = 0, student_name = ''Asha'' \<rparr>"
    by (simp add: empty_test_started_def created main_stage stage_of_def
                  show_test_start_interface_def sample_inputs_def)
  show ?thesis
    using r
    by (simp add: started main_stage stage_of_def question_count_def show_test_interface_def)
qed

text \<open>
  Claim C4, amended. In every session that the script can reach, in the InProgress stage the
  question list has a length, and unless it is empty the current index lies in
  \<open>[0, length)\<close>. From a session in the InProgress stage whose index lies in that range, a run
  keeps the list and the index in range, and the stage changes only by an accepted finish;
  a press of Previous at index 0, of Next at the last index, and of Finish before the last
  index leaves the session as it is, the refused Finish ending as a run without a press ends;
  and where the question on screen can be rendered (a run without a press ends without an
  exception), Previous above index 0 lowers the index by one, Next below the last index
  raises it by one, and Finish at the last index completes the test and keeps the index.
\<close>

theorem navigation_bounds:
  "(reachable st \<and> stage_of (initialise st) = InProgress \<longrightarrow>
      (\<exists>m. question_count (initialise st) = Inr m \<and>
           (0 < m \<longrightarrow> 0 \<le> current_question (initialise st) \<and>
                       current_question (initialise st) < int m))) \<and>
   (stage_of (initialise st) = InProgress \<and> question_count (initialise st) = Inr n \<and>
    0 \<le> current_question (initialise st) \<and> current_question (initialise st) < int n \<longrightarrow>
      question_count (initialise (session_after (main loads api st inp))) = Inr n \<and>
      0 \<le> current_question (initialise (session_after (main loads api st inp))) \<and>
      current_question (initialise (session_after (main loads api st inp))) < int n \<and>
      (stage_of (initialise (session_after (main loads api st inp))) = InProgress \<or>
       stage_of (initialise (session_after (main loads api st inp))) = Completed \<and>
       clicked inp = Some FinishTest \<and> current_question (initialise st) = int n - 1) \<and>
      (clicked inp = Some Previous \<and> current_question (initialise st) = 0 \<longrightarrow>
         initialise (session_after (main loads api st inp)) = initialise st) \<and>
      (clicked inp = Some Next \<and> current_question (initialise st) = int n - 1 \<longrightarrow>
         initialise (session_after (main loads api st inp)) = initialise st) \<and>
      (clicked inp = Some FinishTest \<and> current_question (initialise st) \<noteq> int n - 1 \<longrightarrow>
         initialise (session_after (main loads api st inp)) = initialise st \<and>
         uncaught (main loads api st inp) = uncaught (main loads api st (inp\<lparr>clicked := None\<rparr>))) \<and>
      (uncaught (main loads api st (inp\<lparr>clicked := None\<rparr>)) = None \<longrightarrow>
         (clicked inp = Some Previous \<and> 0 < current_question (initialise st) \<longrightarrow>
            current_question (initialise (session_after (main loads api st inp))) =
              current_question (initialise st) - 1 \<and>
            stage_of (initialise (session_after (main loads api st inp))) = InProgress) \<and>
         (clicked inp = Some Next \<and> current_question (initialise st) < int n - 1 \<longrightarrow>
            current_question (initialise (session_after (main loads api st inp))) =
              current_question (initialise st) + 1 \<and>
            stage_of (initialise (session_after (main loads api st inp))) = InProgress) \<and>
         (clicked inp = Some FinishTest \<and> current_question (initialise st) = int n - 1 \<longrightarrow>
            current_question (initialise (session_after (main loads api st inp))) =
              current_question (initialise st) \<and>
            stage_of (initialise (session_after (main loads api st inp))) = Completed)))"
  (is "(?reach \<longrightarrow> ?inv) \<and> (?pre \<longrightarrow> ?post)")
proof (rule conjI)
  show "?reach \<longrightarrow> ?inv"
    using reachable_session_inv[of st]
    by (auto simp: session_inv_iff stage_of_simps)
next
  show "?pre \<longrightarrow> ?post"
  proof (rule impI)
    let ?s = "initialise st"
    let ?q = "current_question ?s"
    let ?out = "main loads api st inp"
    let ?idle = "main loads api st (inp\<lparr>clicked := None\<rparr>)"
    let ?s' = "initialise (session_after ?out)"
    assume ?pre
    then have stage: "stage_of ?s = InProgress" and qc: "question_count ?s = Inr n"
      and lo: "0 \<le> ?q" and hi: "?q < int n"
      by simp_all
    have flags: "test_created ?s" "test_started ?s" "\<not> test_completed ?s"
      using stage by (simp_all add: stage_of_simps)
    have out: "?out = show_test_interface ?s inp"
      and idle: "?idle = show_test_interface ?s (inp\<lparr>clicked := None\<rparr>)"
      using stage by (simp_all add: main_stage)
    from show_test_interface_in_range[OF qc lo hi]
    consider e where "\<forall>i. show_test_interface ?s i = crashed ?s e"
      | "\<forall>i. show_test_interface ?s i = navigation ?s i ?q (int n)"
      by blast
    then show ?post
    proof cases
      case 1
      then have "?out = crashed ?s e" "?idle = crashed ?s e"
        using out idle by simp_all
      with stage qc lo hi show ?thesis by simp
    next
      case 2
      then have nav: "?out = navigation ?s inp ?q (int n)"
        and nav_idle: "?idle = navigation ?s (inp\<lparr>clicked := None\<rparr>) ?q (int n)"
        using out idle by simp_all
      from navigation_effect[of ?s inp ?q "int n"]
      consider (same) "?s' = ?s"
          "clicked inp = Some Previous \<longrightarrow> \<not> 0 < ?q"
          "clicked inp = Some Next \<longrightarrow> \<not> ?q < int n - 1"
          "clicked inp = Some FinishTest \<longrightarrow> ?q \<noteq> int n - 1"
        | (backward) "clicked inp = Some Previous" "0 < ?q"
          "?s' = (save_answer ?s ?q (selected_answer inp))\<lparr>current_question := ?q - 1\<rparr>"
        | (forward) "clicked inp = Some Next" "?q < int n - 1"
          "?s' = (save_answer ?s ?q (selected_answer inp))\<lparr>current_question := ?q + 1\<rparr>"
        | (finish) "clicked inp = Some FinishTest" "?q = int n - 1"
          "?s' = (save_answer ?s ?q (selected_answer inp))\<lparr>test_completed := True\<rparr>"
        unfolding nav
        by (cases "clicked inp = Some Previous"; cases "clicked inp = Some Next";
            cases "clicked inp = Some FinishTest"; cases "0 < ?q"; cases "?q < int n - 1";
            cases "?q = int n - 1")
           (simp_all add: navigation_previous navigation_next navigation_finish navigation_idle)
      then show ?thesis
      proof cases
        case same
        with stage qc lo hi nav nav_idle show ?thesis by auto
      next
        case backward
        with flags qc lo hi nav nav_idle show ?thesis
          by (simp add: stage_of_simps question_count_def)
      next
        case forward
        with flags qc lo hi nav nav_idle show ?thesis
          by (simp add: stage_of_simps question_count_def)
      next
        case finish
        with flags qc lo hi nav nav_idle show ?thesis
          by (simp add: stage_of_simps question_count_def)
      qed
    qed
  qed
qed

lemma parse_sample_response:
  "parse_mcq_response sample_loads sample_response = Inr (sample_test, [])"
proof -
  define body where "body = tl (butlast sample_payload)"
  have b: "sample_payload = CHR ''{'' # body @ ''}''"
    by (simp add: body_def sample_payload_def)
  have d: "sample_loads sample_payload = Decoded sample_test"
    by (simp add: sample_loads_def)
  have "brace_span (''Here is your quiz: '' @ CHR ''{'' # body @ CHR ''}'' # '' Good luck!'') =
          Some (CHR ''{'' # body @ ''}'')"
    by (rule brace_span_embedded) simp_all
  then have "brace_span sample_response = Some sample_payload"
    unfolding sample_response_def b by simp
  with d show ?thesis
    by (simp add: parse_mcq_response_def re_search_eq)
qed

lemma sample_test_started_eq: "sample_test_started = stored sample_in_progress"
proof -
  have ne: "sample_response \<noteq> []" by (simp add: sample_response_def)
  have created: "sample_test_created =
      stored \<lparr> test_created = True, test_data = sample_test, test_started = False,
               test_completed = False, student_answers = Map.empty, current_question = 0,
               student_name = ''Asha'' \<rparr>"
    using ne
    by (simp add: sample_test_created_def main_stage initialise_deleted stage_of_def
                  show_test_creation_interface_def generate_mcqs_def parse_sample_response
                  sample_inputs_def sample_test_def)
  show ?thesis
    by (simp add: sample_test_started_def created main_stage stage_of_def
                  show_test_start_interface_def sample_inputs_def sample_in_progress_def
                  sample_test_def sample_questions_def)
qed

theorem navigation_bounds_witness:
  "reachable sample_test_started \<and>
   stage_of (initialise sample_test_started) = InProgress \<and>
   question_count (initialise sample_test_started) = Inr 2 \<and>
   current_question (initialise sample_test_started) = 0 \<and>
   uncaught (main sample_loads (Inl []) sample_test_started (sample_inputs\<lparr>clicked := None\<rparr>)) = None \<and>
   initialise (session_after
     (main sample_loads (Inl []) sample_test_started (sample_inputs\<lparr>clicked := Some Previous\<rparr>)))
     = initialise sample_test_started \<and>
   current_question (initialise (session_after
     (main sample_loads (Inl []) sample_test_started (sample_inputs\<lparr>clicked := Some Next\<rparr>))))
     = 1 \<and>
   stage_of (initialise (session_after
     (main sample_loads (Inl []) sample_test_started (sample_inputs\<lparr>clicked := Some Next\<rparr>))))
     = InProgress \<and>
   initialise (session_after
     (main sample_loads (Inl []) sample_test_started (sample_inputs\<lparr>clicked := Some FinishTest\<rparr>)))
     = initialise sample_test_started"
proof -
  have r: "reachable sample_test_started"
    unfolding sample_test_started_def sample_test_created_def
    by (intro reachable.run reachable.fresh)
  have stage: "stage_of (initialise sample_test_started) = InProgress"
    by (simp add: sample_test_started_eq stage_of_def sample_in_progress_def)
  have qc: "question_count (initialise sample_test_started) = Inr 2"
    by (simp add: sample_test_started_eq question_count_def sample_in_progress_def
                  sample_test_def sample_questions_def)
  have cur: "current_question (initialise sample_test_started) = 0"
    by (simp add: sample_test_started_eq sample_in_progress_def)
  have idle: "uncaught (main sample_loads (Inl []) sample_test_started
                 (sample_inputs\<lparr>clicked := None\<rparr>)) = None"
    by (simp add: sample_test_started_eq main_stage stage_of_def show_test_interface_def
                  py_nth_def Let_def sample_in_progress_def sample_test_def
                  sample_questions_def)
  from navigation_bounds
         [of sample_test_started 2 sample_loads "Inl []" "sample_inputs\<lparr>clicked := Some Previous\<rparr>"]
       navigation_bounds
         [of sample_test_started 2 sample_loads "Inl []" "sample_inputs\<lparr>clicked := Some Next\<rparr>"]
       navigation_bounds
         [of sample_test_started 2 sample_loads "Inl []" "sample_inputs\<lparr>clicked := Some FinishTest\<rparr>"]
       r stage qc cur idle
  show ?thesis by simp
qed

end
